theory Spec2Isabelle
  imports Complex_Main
begin

section \<open>Smart factory dashboard: the state engine of \<open>sw.js\<close>\<close>

text \<open>
  The source file holds a service worker (cache install, activate, fetch) and the class
  \<open>SmartFactory3D\<close>. The class keeps its machines in a plain object
  \<open>this.machines\<close>, its production lines in \<open>this.productionLines\<close>, and one
  WebSocket in \<open>this.socket\<close>. The three.js scene objects of a machine (group, body,
  statusLight, position) are view state and are not part of the model; what is kept of
  them is the fact that only an object made by \<open>createMachine\<close> has a statusLight.

  The file holds two versions of the class. The model follows the first, which has the
  production lines and the predictive maintenance; the socket handlers,
  \<open>handleRealtimeData\<close> and \<open>dispose\<close> are the same in both.

  A \<open>Date\<close> is modelled as its time value in whole milliseconds, strings as
  \<open>string\<close>. The metrics in the store are real numbers. The predictive maintenance
  is modelled twice: first over the reals (no rounding, no NaN, no infinities), then in
  double arithmetic, where every operation of the source rounds as the code rounds it.
\<close>

subsection \<open>Data\<close>

text \<open>An entry of \<open>machinesConfig\<close>: \<open>{ id, name, type, status }\<close>.\<close>

record config =
  cfg_id :: string
  cfg_name :: string
  cfg_type :: string
  cfg_status :: string

text \<open>The object \<open>createMachine\<close> stores in \<open>this.machines[id]\<close>.\<close>

record machine =
  m_id :: string
  m_name :: string
  m_status :: string
  temperature :: real
  vibration :: real
  efficiency :: real
  lastMaintenance :: int
  nextMaintenance :: int

text \<open>The object \<open>createProductionLine\<close> stores in \<open>this.productionLines[lineId]\<close>.\<close>

record line =
  l_id :: string
  l_name :: string
  l_status :: string
  l_machines :: "string list"
  l_color :: string
  l_position :: int

text \<open>
  A decoded telemetry frame, typed as the wire format has it: the type, the machine id
  and the status are strings; a metric that the frame does not carry is \<open>None\<close>
  (\<open>undefined\<close> in the source), one it carries is a number.
\<close>

record data =
  d_type :: string
  d_machineId :: string
  d_status :: string
  d_temperature :: "real option"
  d_vibration :: "real option"
  d_efficiency :: "real option"
  d_message :: string

datatype readyState = CONNECTING | OPEN | CLOSING | CLOSED

text \<open>
  The fields of \<open>this\<close>. \<open>alerts\<close> lists the messages handed to \<open>showAlert\<close>, oldest
  first. \<open>reconnectTimers\<close> counts the pending \<open>setTimeout\<close> callbacks of the close
  handler (the source keeps no handle of them), \<open>connects\<close> counts the calls of
  \<open>setupSocketConnection\<close>; \<open>frameRequested\<close> says that an animation frame is pending.
\<close>

record factory =
  machines :: "string \<rightharpoonup> machine"
  productionLines :: "string \<rightharpoonup> line"
  alerts :: "string list"
  socket :: "readyState option"
  reconnectTimers :: nat
  connects :: nat
  frameRequested :: bool
  rendererDisposed :: bool

datatype error = TypeError

text \<open>
  How a method call ends: it returns, or it throws; either way \<open>this\<close> is in the
  state given.
\<close>

datatype completion = Normal factory | Thrown error factory

subsection \<open>Reading a property of a plain object\<close>

text \<open>
  \<open>this.machines\<close> is created as \<open>{}\<close>, so its prototype is \<open>Object.prototype\<close>, and
  \<open>this.machines[k]\<close> is the object's own property \<open>k\<close> when it has one, and otherwise
  the member \<open>k\<close> of \<open>Object.prototype\<close> when there is one: a function, or for
  \<open>__proto__\<close> the prototype object itself. All of these are truthy, and none has a
  \<open>statusLight\<close>. The names are those of the language standard.
\<close>

definition objectPrototypeKeys :: "string list" where
  "objectPrototypeKeys =
     [''constructor'', ''hasOwnProperty'', ''isPrototypeOf'', ''propertyIsEnumerable'',
      ''toLocaleString'', ''toString'', ''valueOf'', ''__proto__'',
      ''__defineGetter__'', ''__defineSetter__'', ''__lookupGetter__'', ''__lookupSetter__'']"

datatype 'a property = Own 'a | Inherited | Undefined

definition getProperty :: "(string \<rightharpoonup> 'a) \<Rightarrow> string \<Rightarrow> 'a property" where
  "getProperty obj k =
     (case obj k of
        Some v \<Rightarrow> Own v
      | None \<Rightarrow> if k \<in> set objectPrototypeKeys then Inherited else Undefined)"

subsection \<open>Line status\<close>

text \<open>
  \<open>calculateLineStatus(machinesConfig)\<close>: \<open>includes\<close> and \<open>every\<close> over the mapped
  statuses, in the order of the source.
\<close>

definition calculateLineStatus :: "config list \<Rightarrow> string" where
  "calculateLineStatus machinesConfig =
     (let statuses = map cfg_status machinesConfig in
      if ''offline'' \<in> set statuses \<or> ''maintenance'' \<in> set statuses
      then ''stopped''
      else if list_all (\<lambda>s. s = ''running'') statuses then ''running''
      else ''warning'')"

text \<open>
  The aggregation rule in the words of the specification, over the member statuses
  alone: rule 1 (any \<open>offline\<close> or \<open>maintenance\<close>), else rule 2 (all \<open>running\<close>), else
  rule 3.
\<close>

definition lineStatusRule :: "string list \<Rightarrow> string" where
  "lineStatusRule statuses =
     (if \<exists>s \<in> set statuses. s = ''offline'' \<or> s = ''maintenance'' then ''stopped''
      else if \<forall>s \<in> set statuses. s = ''running'' then ''running''
      else ''warning'')"

subsection \<open>Building the store\<close>

text \<open>
  \<open>new Date(v)\<close> keeps the whole milliseconds of \<open>v\<close>, cut towards zero. (A clock
  reading, and any time a few weeks from one, is far inside the range a \<open>Date\<close> can
  hold, so the range check of \<open>Date\<close> is left out.)
\<close>

definition newDate :: "real \<Rightarrow> int" where
  "newDate v = (if 0 \<le> v then \<lfloor>v\<rfloor> else \<lceil>v\<rceil>)"

text \<open>
  What \<open>createMachine\<close> reads from its environment, in the order of the source: three
  values of \<open>Math.random()\<close> for the metrics, then for each of the two dates a reading
  of \<open>Date.now()\<close> and a value of \<open>Math.random()\<close>.
\<close>

record draws =
  rnd_temperature :: real
  rnd_vibration :: real
  rnd_efficiency :: real
  now_last :: int
  rnd_last :: real
  now_next :: int
  rnd_next :: real

text \<open>
  \<open>createMachine(id, name, x, y, z, status, color, type, lineId)\<close>: the part after the
  scene objects are built, \<open>this.machines[id] = { ... }\<close>. The position, the colour, the
  type and the line id go to the scene only. The assignment makes or replaces the own
  property \<open>id\<close> (the class creates machines from the literal configurations of
  \<open>createDemoLayout\<close> only, so the name \<open>__proto__\<close>, which would not, does not occur).
\<close>

definition createMachine :: "factory \<Rightarrow> string \<Rightarrow> string \<Rightarrow> string \<Rightarrow> draws \<Rightarrow> factory" where
  "createMachine s ident name status dr =
     s\<lparr>machines := (machines s)(ident \<mapsto>
        \<lparr>m_id = ident, m_name = name, m_status = status,
         temperature = rnd_temperature dr * 50 + 50,
         vibration = rnd_vibration dr * 10,
         efficiency = rnd_efficiency dr * 30 + 70,
         lastMaintenance =
           newDate (real_of_int (now_last dr) - rnd_last dr * 30 * 24 * 60 * 60 * 1000),
         nextMaintenance =
           newDate (real_of_int (now_next dr) + rnd_next dr * 30 * 24 * 60 * 60 * 1000)\<rparr>)\<rparr>"

text \<open>
  The \<open>forEach\<close> of \<open>createProductionLine\<close>: the machine of index \<open>i\<close> is created with
  status \<open>stopped\<close> when the line is stopped, and with its configured status otherwise.
  \<open>dr i\<close> is what the environment gives the call of index \<open>i\<close>.
\<close>

fun forEachConfig :: "string \<Rightarrow> (nat \<Rightarrow> draws) \<Rightarrow> factory \<Rightarrow> config list \<Rightarrow> nat \<Rightarrow> factory" where
  "forEachConfig lineStatus dr s [] index = s"
| "forEachConfig lineStatus dr s (c # cs) index =
     (let machineStatus = (if lineStatus = ''stopped'' then ''stopped'' else cfg_status c)
      in forEachConfig lineStatus dr
           (createMachine s (cfg_id c) (cfg_name c) machineStatus (dr index)) cs (Suc index))"

definition createProductionLine ::
  "factory \<Rightarrow> string \<Rightarrow> string \<Rightarrow> config list \<Rightarrow> int \<Rightarrow> string \<Rightarrow> (nat \<Rightarrow> draws) \<Rightarrow> factory" where
  "createProductionLine s lineId lineName machinesConfig zPosition lineColor dr =
     (let lineStatus = calculateLineStatus machinesConfig;
          s1 = forEachConfig lineStatus dr s machinesConfig 0
      in s1\<lparr>productionLines := (productionLines s1)(lineId \<mapsto>
           \<lparr>l_id = lineId, l_name = lineName, l_status = lineStatus,
            l_machines = map cfg_id machinesConfig,
            l_color = lineColor, l_position = zPosition\<rparr>)\<rparr>)"

text \<open>The fields of \<open>this\<close> after the constructor has set them and before \<open>init\<close> runs.\<close>

definition newFactory :: factory where
  "newFactory =
     \<lparr>machines = Map.empty, productionLines = Map.empty, alerts = [], socket = None,
      reconnectTimers = 0, connects = 0, frameRequested = False, rendererDisposed = False\<rparr>"

text \<open>
  \<open>createDemoLayout()\<close>: the three lines of the source, created in this order;
  \<open>dr lineId\<close> is what the environment gives the machines of that line.
\<close>

definition lineA :: "config list" where
  "lineA =
     [\<lparr>cfg_id = ''MACHINE_A1'', cfg_name = ''Stamping Press A1'', cfg_type = ''stamping'',
       cfg_status = ''running''\<rparr>,
      \<lparr>cfg_id = ''MACHINE_A2'', cfg_name = ''Welding Station A2'', cfg_type = ''welding'',
       cfg_status = ''running''\<rparr>,
      \<lparr>cfg_id = ''MACHINE_A3'', cfg_name = ''Assembly Unit A3'', cfg_type = ''assembly'',
       cfg_status = ''maintenance''\<rparr>,
      \<lparr>cfg_id = ''MACHINE_A4'', cfg_name = ''Quality Check A4'', cfg_type = ''quality'',
       cfg_status = ''stopped''\<rparr>]"

definition lineB :: "config list" where
  "lineB =
     [\<lparr>cfg_id = ''MACHINE_B1'', cfg_name = ''CNC Mill B1'', cfg_type = ''cnc'',
       cfg_status = ''running''\<rparr>,
      \<lparr>cfg_id = ''MACHINE_B2'', cfg_name = ''Lathe B2'', cfg_type = ''lathe'',
       cfg_status = ''offline''\<rparr>,
      \<lparr>cfg_id = ''MACHINE_B3'', cfg_name = ''Drill Press B3'', cfg_type = ''drill'',
       cfg_status = ''stopped''\<rparr>,
      \<lparr>cfg_id = ''MACHINE_B4'', cfg_name = ''Grinding Unit B4'', cfg_type = ''grinding'',
       cfg_status = ''stopped''\<rparr>]"

definition lineC :: "config list" where
  "lineC =
     [\<lparr>cfg_id = ''MACHINE_C1'', cfg_name = ''Injection Molder C1'', cfg_type = ''molding'',
       cfg_status = ''running''\<rparr>,
      \<lparr>cfg_id = ''MACHINE_C2'', cfg_name = ''Cooling Station C2'', cfg_type = ''cooling'',
       cfg_status = ''running''\<rparr>,
      \<lparr>cfg_id = ''MACHINE_C3'', cfg_name = ''Trimming Unit C3'', cfg_type = ''trimming'',
       cfg_status = ''running''\<rparr>,
      \<lparr>cfg_id = ''MACHINE_C4'', cfg_name = ''Packaging Line C4'', cfg_type = ''packaging'',
       cfg_status = ''running''\<rparr>]"

definition createDemoLayout :: "factory \<Rightarrow> (string \<Rightarrow> nat \<Rightarrow> draws) \<Rightarrow> factory" where
  "createDemoLayout s dr =
     (let s1 = createProductionLine s ''A'' ''Automotive Parts'' lineA (- 6) ''red'' (dr ''A'');
          s2 = createProductionLine s1 ''B'' ''Electronics'' lineB 0 ''orange'' (dr ''B'')
      in createProductionLine s2 ''C'' ''Consumer Goods'' lineC 6 ''green'' (dr ''C''))"

text \<open>
  A run of the environment used in the examples below: every \<open>Math.random()\<close> gives
  one half, every \<open>Date.now()\<close> during construction gives 1700000000000.
\<close>

definition midDraws :: draws where
  "midDraws =
     \<lparr>rnd_temperature = 1 / 2, rnd_vibration = 1 / 2, rnd_efficiency = 1 / 2,
      now_last = 1700000000000, rnd_last = 1 / 2,
      now_next = 1700000000000, rnd_next = 1 / 2\<rparr>"

definition demoFactory :: factory where
  "demoFactory = createDemoLayout newFactory (\<lambda>lineId index. midDraws)"

subsection \<open>Applying telemetry\<close>

text \<open>
  \<open>a || b\<close> where \<open>a\<close> is a number or \<open>undefined\<close>: \<open>undefined\<close> and \<open>0\<close> are falsy.
\<close>

definition orElse :: "real option \<Rightarrow> real \<Rightarrow> real" where
  "orElse a b = (case a of None \<Rightarrow> b | Some v \<Rightarrow> if v = 0 then b else v)"

text \<open>
  \<open>handleRealtimeData(data)\<close>. In the first \<open>if\<close>, \<open>this.machines[data.machineId]\<close> is
  truthy for a stored machine and for an inherited member of \<open>Object.prototype\<close>. For a
  stored machine the four assignments change the object in the store, and
  \<open>updateMachineVisualStatus\<close> and \<open>updateMachineListUI\<close> touch the scene and the page
  only. For an inherited member the assignments write to that member, which is not in
  the store, and \<open>updateMachineVisualStatus\<close> then reads
  \<open>machine.statusLight.material\<close> with \<open>statusLight\<close> undefined, which throws.
  What those assignments leave on \<open>Object.prototype\<close> and its members is not kept:
  the model follows the machines of the store as long as no frame has named an
  inherited member, and the production lines always.
\<close>

definition handleRealtimeData :: "factory \<Rightarrow> data \<Rightarrow> completion" where
  "handleRealtimeData s d =
     (let first =
        (if d_type d = ''machineStatus'' then
           (case getProperty (machines s) (d_machineId d) of
              Own machine \<Rightarrow>
                Normal (s\<lparr>machines := (machines s)(d_machineId d \<mapsto>
                  machine\<lparr>m_status := d_status d,
                          temperature := orElse (d_temperature d) (temperature machine),
                          vibration := orElse (d_vibration d) (vibration machine),
                          efficiency := orElse (d_efficiency d) (efficiency machine)\<rparr>)\<rparr>)
            | Inherited \<Rightarrow> Thrown TypeError s
            | Undefined \<Rightarrow> Normal s)
         else Normal s)
      in case first of
           Thrown e s1 \<Rightarrow> Thrown e s1
         | Normal s1 \<Rightarrow>
             if d_type d = ''alert'' then Normal (s1\<lparr>alerts := alerts s1 @ [d_message d]\<rparr>)
             else Normal s1)"

text \<open>
  \<open>socket.onmessage\<close>: \<open>JSON.parse\<close> and the handler run inside \<open>try\<close>; a frame that
  does not parse (\<open>None\<close>) and a handler that throws both end in the \<open>catch\<close>, which
  logs.
\<close>

definition onmessage :: "factory \<Rightarrow> data option \<Rightarrow> factory" where
  "onmessage s frame =
     (case frame of
        None \<Rightarrow> s
      | Some d \<Rightarrow> (case handleRealtimeData s d of Normal s1 \<Rightarrow> s1 | Thrown e s1 \<Rightarrow> s1))"

text \<open>The statuses of a line's member machines as the store has them now.\<close>

definition memberStatuses :: "factory \<Rightarrow> line \<Rightarrow> string option list" where
  "memberStatuses s l = map (\<lambda>i. map_option m_status (machines s i)) (l_machines l)"

subsection \<open>Predictive maintenance\<close>

text \<open>The object \<open>factors\<close> of \<open>calculatePredictiveMaintenance\<close>.\<close>

record factors =
  f_temperature :: real
  f_vibration :: real
  f_efficiency :: real
  f_runTime :: real
  f_historicalPattern :: real

text \<open>
  The recommendation; its \<open>action\<close> text is a display string and is left out.
\<close>

record recommendation =
  priority :: string
  color :: string

text \<open>The object \<open>calculatePredictiveMaintenance\<close> returns.\<close>

record assessment =
  a_riskScore :: real
  a_daysToMaintenance :: int
  a_predictedMaintenanceDate :: int
  a_factors :: factors
  a_recommendation :: recommendation

text \<open>The four risk constants and their mean, as the source computes them.\<close>

definition tempRisk :: "factors \<Rightarrow> real" where
  "tempRisk f = max 0 ((f_temperature f - 75) / 25)"

definition vibrationRisk :: "factors \<Rightarrow> real" where
  "vibrationRisk f = f_vibration f / 10"

definition efficiencyRisk :: "factors \<Rightarrow> real" where
  "efficiencyRisk f = max 0 ((85 - f_efficiency f) / 20)"

definition timeRisk :: "factors \<Rightarrow> real" where
  "timeRisk f = min 1 (f_runTime f / (30 * 24 * 60 * 60 * 1000))"

definition overallRisk :: "factors \<Rightarrow> real" where
  "overallRisk f = (tempRisk f + vibrationRisk f + efficiencyRisk f + timeRisk f) / 4"

text \<open>The constant \<open>daysToMaintenance\<close>, before it is rounded for the result.\<close>

definition daysToMaintenance :: "factors \<Rightarrow> real" where
  "daysToMaintenance f = max 0 (14 - overallRisk f * 14)"

text \<open>\<open>Math.round\<close>: the nearest integer, a half going up.\<close>

definition mathRound :: "real \<Rightarrow> int" where
  "mathRound x = \<lfloor>x + 1 / 2\<rfloor>"

definition getMaintenanceRecommendation :: "real \<Rightarrow> real \<Rightarrow> recommendation" where
  "getMaintenanceRecommendation riskScore days =
     (if riskScore > 0.8 then \<lparr>priority = ''CRITICAL'', color = ''#ff4757''\<rparr>
      else if riskScore > 0.6 then \<lparr>priority = ''HIGH'', color = ''#ffa502''\<rparr>
      else if days \<le> 2 then \<lparr>priority = ''MEDIUM'', color = ''#3742fa''\<rparr>
      else \<lparr>priority = ''LOW'', color = ''#00ff88''\<rparr>)"

text \<open>
  What the method returns: \<open>null\<close>, an assessment of a stored machine, or, for a name
  inherited from \<open>Object.prototype\<close>, an object computed from the properties of that
  member, which the store does not hold.
\<close>

datatype result = Null | Assessment assessment | OfPrototypeMember

text \<open>
  \<open>calculatePredictiveMaintenance(machineId)\<close>. The method reads \<open>Date.now()\<close> for
  \<open>runTime\<close>, then \<open>Math.random()\<close>, then \<open>Date.now()\<close> again for the predicted date;
  \<open>now1\<close>, \<open>rnd\<close> and \<open>now2\<close> are the three values in that order. \<open>factorsOf\<close> is
  the object literal \<open>factors\<close>.
\<close>

definition factorsOf :: "machine \<Rightarrow> int \<Rightarrow> real \<Rightarrow> factors" where
  "factorsOf machine now1 rnd =
     \<lparr>f_temperature = temperature machine,
      f_vibration = vibration machine,
      f_efficiency = efficiency machine,
      f_runTime = real_of_int (now1 - lastMaintenance machine),
      f_historicalPattern = rnd * 0.3 + 0.7\<rparr>"

definition calculatePredictiveMaintenance ::
  "factory \<Rightarrow> string \<Rightarrow> int \<Rightarrow> real \<Rightarrow> int \<Rightarrow> result" where
  "calculatePredictiveMaintenance s machineId now1 rnd now2 =
     (case getProperty (machines s) machineId of
        Undefined \<Rightarrow> Null
      | Inherited \<Rightarrow> OfPrototypeMember
      | Own machine \<Rightarrow>
          (let f = factorsOf machine now1 rnd;
               maintenanceDate =
                 newDate (real_of_int now2 + daysToMaintenance f * 24 * 60 * 60 * 1000)
           in Assessment
                \<lparr>a_riskScore = overallRisk f,
                 a_daysToMaintenance = mathRound (daysToMaintenance f),
                 a_predictedMaintenanceDate = maintenanceDate,
                 a_factors = f,
                 a_recommendation =
                   getMaintenanceRecommendation (overallRisk f) (daysToMaintenance f)\<rparr>))"

text \<open>The returned object, when the method returned one for a stored machine.\<close>

definition theAssessment :: "result \<Rightarrow> assessment option" where
  "theAssessment r = (case r of Assessment a \<Rightarrow> Some a | Null \<Rightarrow> None | OfPrototypeMember \<Rightarrow> None)"

subsection \<open>The telemetry channel\<close>

text \<open>
  \<open>setupSocketConnection()\<close> makes a new socket, which starts connecting, and installs
  the four handlers below on it.
\<close>

definition setupSocketConnection :: "factory \<Rightarrow> factory" where
  "setupSocketConnection s = s\<lparr>socket := Some CONNECTING, connects := Suc (connects s)\<rparr>"

text \<open>\<open>onopen\<close> and \<open>onerror\<close> log; \<open>onclose\<close> logs and sets the timer of 5000 ms.\<close>

definition onopen :: "factory \<Rightarrow> factory" where
  "onopen s = s"

definition onclose :: "factory \<Rightarrow> factory" where
  "onclose s = s\<lparr>reconnectTimers := Suc (reconnectTimers s)\<rparr>"

definition onerror :: "factory \<Rightarrow> factory" where
  "onerror s = s"

text \<open>
  \<open>animate()\<close> requests the next animation frame and keeps its id in
  \<open>this.animationId\<close>; the rendering it does is view state.
\<close>

definition animate :: "factory \<Rightarrow> factory" where
  "animate s = s\<lparr>frameRequested := True\<rparr>"

text \<open>
  \<open>init()\<close>, after the scene is set up: the demo layout is created, the socket is set
  up, the animation loop is started.
\<close>

definition init :: "factory \<Rightarrow> (string \<Rightarrow> nat \<Rightarrow> draws) \<Rightarrow> factory" where
  "init s dr = animate (setupSocketConnection (createDemoLayout s dr))"

text \<open>
  \<open>dispose()\<close>: the pending animation frame is cancelled, \<open>close()\<close> is called on the
  socket when there is one (a socket that is connecting or open starts closing; on one
  that is closing or closed the call does nothing), the renderer is disposed.
\<close>

definition dispose :: "factory \<Rightarrow> factory" where
  "dispose s =
     s\<lparr>frameRequested := False,
       socket := (case socket s of
                    Some CONNECTING \<Rightarrow> Some CLOSING
                  | Some OPEN \<Rightarrow> Some CLOSING
                  | other \<Rightarrow> other),
       rendererDisposed := True\<rparr>"

text \<open>
  What can happen to the object after \<open>init\<close>: the host reports that the socket has
  opened, delivers a frame, reports an error, reports that the socket has closed (after
  a failure, a loss of the connection, or a call of \<open>close()\<close>); a timer set by
  \<open>onclose\<close> runs out and calls \<open>setupSocketConnection\<close>; the application calls
  \<open>dispose\<close>.
\<close>

datatype occurrence =
  SocketOpened | SocketFrame "data option" | SocketFailed | SocketClosed
  | TimerFired | DisposeCalled

definition occur :: "factory \<Rightarrow> occurrence \<Rightarrow> factory" where
  "occur s what =
     (case what of
        SocketOpened \<Rightarrow>
          if socket s = Some CONNECTING then onopen (s\<lparr>socket := Some OPEN\<rparr>) else s
      | SocketFrame frame \<Rightarrow>
          if socket s = Some OPEN \<or> socket s = Some CLOSING then onmessage s frame else s
      | SocketFailed \<Rightarrow>
          if socket s = None \<or> socket s = Some CLOSED then s else onerror s
      | SocketClosed \<Rightarrow>
          if socket s = None \<or> socket s = Some CLOSED then s
          else onclose (s\<lparr>socket := Some CLOSED\<rparr>)
      | TimerFired \<Rightarrow>
          if 0 < reconnectTimers s
          then setupSocketConnection (s\<lparr>reconnectTimers := reconnectTimers s - 1\<rparr>)
          else s
      | DisposeCalled \<Rightarrow> dispose s)"

subsection \<open>The service worker's caches\<close>

text \<open>
  A response as far as the worker looks at it. A cache maps a request, a \<open>GET\<close> of an
  absolute URL, to the response stored for it; the cache storage lists the named caches
  in the order they were made, which is the order \<open>caches.keys()\<close> and
  \<open>caches.match\<close> go through them. The network is a function: \<open>None\<close> is a fetch that
  fails.
\<close>

record response =
  resp_status :: nat
  resp_type :: string
  resp_body :: string

type_synonym cache = "string \<rightharpoonup> response"

type_synonym cacheStorage = "(string \<times> cache) list"

type_synonym network = "string \<Rightarrow> response option"

definition CACHE_NAME :: string where
  "CACHE_NAME = ''smart-factory-v1.2''"

definition urlsToCache :: "string list" where
  "urlsToCache =
     [''/'', ''/index.html'', ''/manifest.json'',
      ''https://cdnjs.cloudflare.com/ajax/libs/font-awesome/6.0.0/css/all.min.css'']"

text \<open>\<open>caches.open(name)\<close> makes the cache when there is none of that name.\<close>

definition cachesOpen :: "cacheStorage \<Rightarrow> string \<Rightarrow> cacheStorage" where
  "cachesOpen cs name = (if name \<in> set (map fst cs) then cs else cs @ [(name, Map.empty)])"

definition cachesKeys :: "cacheStorage \<Rightarrow> string list" where
  "cachesKeys cs = map fst cs"

definition cachesDelete :: "cacheStorage \<Rightarrow> string \<Rightarrow> cacheStorage" where
  "cachesDelete cs name = filter (\<lambda>entry. fst entry \<noteq> name) cs"

text \<open>\<open>cache.put(request, response)\<close> on the cache of the given name.\<close>

definition cachePut :: "cacheStorage \<Rightarrow> string \<Rightarrow> string \<Rightarrow> response \<Rightarrow> cacheStorage" where
  "cachePut cs name url r =
     map (\<lambda>entry. if fst entry = name then (fst entry, (snd entry)(url \<mapsto> r)) else entry) cs"

text \<open>\<open>caches.match(request)\<close>: the first cache, in order, that has the request.\<close>

fun cachesMatch :: "cacheStorage \<Rightarrow> string \<Rightarrow> response option" where
  "cachesMatch [] url = None"
| "cachesMatch (entry # cs) url =
     (case snd entry url of Some r \<Rightarrow> Some r | None \<Rightarrow> cachesMatch cs url)"

text \<open>
  \<open>cache.addAll(urls)\<close> resolves each entry against the worker's location
  (\<open>resolve\<close>), fetches them all, and stores them only when every fetch came back with
  an ok status other than 206; otherwise it rejects with a \<open>TypeError\<close> and stores
  nothing.
\<close>

fun fetchAll :: "(string \<Rightarrow> string) \<Rightarrow> network \<Rightarrow> string list \<Rightarrow> (string \<times> response) list option" where
  "fetchAll resolve net [] = Some []"
| "fetchAll resolve net (u # us) =
     (case net (resolve u) of
        None \<Rightarrow> None
      | Some r \<Rightarrow>
          if 200 \<le> resp_status r \<and> resp_status r \<le> 299 \<and> resp_status r \<noteq> 206
          then map_option ((#) (resolve u, r)) (fetchAll resolve net us)
          else None)"

definition cacheAddAll ::
  "(string \<Rightarrow> string) \<Rightarrow> network \<Rightarrow> cacheStorage \<Rightarrow> string \<Rightarrow> string list \<Rightarrow> error + cacheStorage" where
  "cacheAddAll resolve net cs name urls =
     (case fetchAll resolve net urls of
        None \<Rightarrow> Inl TypeError
      | Some fetched \<Rightarrow> Inr (foldl (\<lambda>acc (url, r). cachePut acc name url r) cs fetched))"

text \<open>
  The \<open>install\<close> listener: open the cache of the current name and add the manifest. A
  rejection fails the installation, and the worker is never activated.
\<close>

definition install :: "(string \<Rightarrow> string) \<Rightarrow> network \<Rightarrow> cacheStorage \<Rightarrow> error + cacheStorage" where
  "install resolve net cs =
     cacheAddAll resolve net (cachesOpen cs CACHE_NAME) CACHE_NAME urlsToCache"

text \<open>
  The \<open>activate\<close> listener: for each name of \<open>caches.keys()\<close> that is not the current
  one, \<open>caches.delete\<close>.
\<close>

definition activate :: "cacheStorage \<Rightarrow> cacheStorage" where
  "activate cs =
     foldl (\<lambda>acc cacheName. if cacheName \<noteq> CACHE_NAME then cachesDelete acc cacheName else acc)
       cs (cachesKeys cs)"

text \<open>
  The \<open>fetch\<close> listener. A request it does not answer goes on to the network untouched.
  The offline page stands for the HTML document the source builds.
\<close>

record request =
  req_method :: string
  req_url :: string
  req_destination :: string

datatype answer = NotIntercepted | Responded response | Failed

definition startsWith :: "string \<Rightarrow> string \<Rightarrow> bool" where
  "startsWith s p = (take (length p) s = p)"

definition offlinePage :: response where
  "offlinePage =
     \<lparr>resp_status = 200, resp_type = ''default'',
      resp_body = ''<title>Smart Factory - Offline</title>''\<rparr>"

definition onfetch :: "network \<Rightarrow> cacheStorage \<Rightarrow> request \<Rightarrow> answer \<times> cacheStorage" where
  "onfetch net cs req =
     (if req_method req \<noteq> ''GET'' then (NotIntercepted, cs)
      else if \<not> startsWith (req_url req) ''http'' then (NotIntercepted, cs)
      else
        (case cachesMatch cs (req_url req) of
           Some r \<Rightarrow> (Responded r, cs)
         | None \<Rightarrow>
             (case net (req_url req) of
                Some r \<Rightarrow>
                  if resp_status r \<noteq> 200 \<or> resp_type r \<noteq> ''basic'' then (Responded r, cs)
                  else (Responded r, cachePut (cachesOpen cs CACHE_NAME) CACHE_NAME (req_url req) r)
              | None \<Rightarrow>
                  if req_destination req = ''document'' then (Responded offlinePage, cs)
                  else (Failed, cs))))"

subsection \<open>Double arithmetic\<close>

text \<open>
  A JavaScript number is a double: a finite value, given here by the real number it
  denotes, an infinity, or NaN. The sign of a zero is not kept; the method below divides
  by constants only, so that sign never shows in what it returns.
\<close>

datatype number = Num real | PosInfinity | NegInfinity | NaN

text \<open>
  Every arithmetic operation returns the exact result rounded to a double. The
  rounding is the parameter \<open>r\<close> of the operations: it takes the exact result to the
  nearest double, or to an infinity on overflow. \<open>roundDouble\<close> below is that function.
\<close>

fun negate :: "number \<Rightarrow> number" where
  "negate (Num x) = Num (- x)"
| "negate PosInfinity = NegInfinity"
| "negate NegInfinity = PosInfinity"
| "negate NaN = NaN"

fun signOf :: "number \<Rightarrow> int" where
  "signOf (Num x) = (if 0 < x then 1 else if x < 0 then - 1 else 0)"
| "signOf PosInfinity = 1"
| "signOf NegInfinity = - 1"
| "signOf NaN = 0"

fun jsAdd :: "(real \<Rightarrow> number) \<Rightarrow> number \<Rightarrow> number \<Rightarrow> number" where
  "jsAdd r (Num x) (Num y) = r (x + y)"
| "jsAdd r NaN b = NaN"
| "jsAdd r a NaN = NaN"
| "jsAdd r PosInfinity NegInfinity = NaN"
| "jsAdd r NegInfinity PosInfinity = NaN"
| "jsAdd r PosInfinity b = PosInfinity"
| "jsAdd r a PosInfinity = PosInfinity"
| "jsAdd r NegInfinity b = NegInfinity"
| "jsAdd r a NegInfinity = NegInfinity"

definition jsSub :: "(real \<Rightarrow> number) \<Rightarrow> number \<Rightarrow> number \<Rightarrow> number" where
  "jsSub r a b = jsAdd r a (negate b)"

fun jsMul :: "(real \<Rightarrow> number) \<Rightarrow> number \<Rightarrow> number \<Rightarrow> number" where
  "jsMul r (Num x) (Num y) = r (x * y)"
| "jsMul r NaN b = NaN"
| "jsMul r a NaN = NaN"
| "jsMul r a b =
     (if signOf a * signOf b = 0 then NaN
      else if 0 < signOf a * signOf b then PosInfinity else NegInfinity)"

text \<open>Division by a literal \<open>c\<close> other than zero.\<close>

fun jsDivBy :: "(real \<Rightarrow> number) \<Rightarrow> number \<Rightarrow> real \<Rightarrow> number" where
  "jsDivBy r (Num x) c = r (x / c)"
| "jsDivBy r PosInfinity c = (if 0 < c then PosInfinity else NegInfinity)"
| "jsDivBy r NegInfinity c = (if 0 < c then NegInfinity else PosInfinity)"
| "jsDivBy r NaN c = NaN"

text \<open>\<open>Math.max(c, x)\<close>, \<open>Math.min(c, x)\<close> and \<open>Math.round(x)\<close>; none of them rounds.\<close>

fun mathMax :: "real \<Rightarrow> number \<Rightarrow> number" where
  "mathMax c (Num x) = Num (max c x)"
| "mathMax c PosInfinity = PosInfinity"
| "mathMax c NegInfinity = Num c"
| "mathMax c NaN = NaN"

fun mathMin :: "real \<Rightarrow> number \<Rightarrow> number" where
  "mathMin c (Num x) = Num (min c x)"
| "mathMin c PosInfinity = Num c"
| "mathMin c NegInfinity = NegInfinity"
| "mathMin c NaN = NaN"

fun mathRoundD :: "number \<Rightarrow> number" where
  "mathRoundD (Num x) = Num (real_of_int (mathRound x))"
| "mathRoundD PosInfinity = PosInfinity"
| "mathRoundD NegInfinity = NegInfinity"
| "mathRoundD NaN = NaN"

text \<open>
  \<open>new Date(v)\<close> with the range check of \<open>Date\<close>: \<open>None\<close> is an invalid date, which
  is what a value beyond 8640000000000000 ms on either side, an infinity and NaN give.
\<close>

fun newDateD :: "number \<Rightarrow> int option" where
  "newDateD (Num v) = (if \<bar>v\<bar> \<le> 8640000000000000 then Some (newDate v) else None)"
| "newDateD PosInfinity = None"
| "newDateD NegInfinity = None"
| "newDateD NaN = None"

text \<open>\<open>a > b\<close> and \<open>a <= b\<close>; a comparison with NaN is false.\<close>

fun greater :: "number \<Rightarrow> number \<Rightarrow> bool" where
  "greater (Num x) (Num y) = (y < x)"
| "greater NaN b = False"
| "greater a NaN = False"
| "greater PosInfinity b = (b \<noteq> PosInfinity)"
| "greater a NegInfinity = (a \<noteq> NegInfinity)"
| "greater a b = False"

fun lessEq :: "number \<Rightarrow> number \<Rightarrow> bool" where
  "lessEq (Num x) (Num y) = (x \<le> y)"
| "lessEq NaN b = False"
| "lessEq a NaN = False"
| "lessEq NegInfinity b = True"
| "lessEq a PosInfinity = True"
| "lessEq a b = False"

text \<open>
  The rounding of IEEE 754 for doubles, to nearest with ties to even. A value from
  \<open>2^e\<close> up to \<open>2^(e+1)\<close> is rounded to a multiple of \<open>2^(e-52)\<close>; below
  \<open>2^(-1022)\<close> the doubles are the multiples of \<open>2^(-1074)\<close>; a result of \<open>2^1024\<close>
  or more is an infinity. \<open>bitLength n\<close> is the number of binary digits of \<open>n\<close>.
\<close>

function bitLength :: "int \<Rightarrow> int" where
  "bitLength n = (if n \<le> 0 then 0 else 1 + bitLength (n div 2))"
  by pat_completeness auto
termination
  by (relation "measure nat") auto

declare bitLength.simps [simp del]

definition roundHalfEven :: "real \<Rightarrow> int" where
  "roundHalfEven y =
     (let f = \<lfloor>y\<rfloor> in
      if y - real_of_int f < 1 / 2 then f
      else if 1 / 2 < y - real_of_int f then f + 1
      else if even f then f else f + 1)"

definition exponentOf :: "real \<Rightarrow> int" where
  "exponentOf a =
     max (- 1022)
       (if 1 \<le> a then bitLength \<lfloor>a\<rfloor> - 1
        else - bitLength (\<lceil>1 / a\<rceil> - 1))"

definition pow2 :: "int \<Rightarrow> real" where
  "pow2 e = (if 0 \<le> e then 2 ^ nat e else 1 / 2 ^ nat (- e))"

definition roundDouble :: "real \<Rightarrow> number" where
  "roundDouble x =
     (if x = 0 then Num 0
      else
        (let a = \<bar>x\<bar>;
             q = pow2 (exponentOf a - 52);
             y = real_of_int (roundHalfEven (a / q)) * q
         in if 2 ^ 1024 \<le> y then (if 0 < x then PosInfinity else NegInfinity)
            else Num (if 0 < x then y else - y)))"

subsection \<open>Predictive maintenance in double arithmetic\<close>

text \<open>
  \<open>calculatePredictiveMaintenance(machineId)\<close> once more, with every operation of the
  source rounded where the code rounds it and in the order the code computes it. The
  metrics of the stored machine are the doubles of the store; a literal with a fraction
  (\<open>0.3\<close>, \<open>0.7\<close>, \<open>0.8\<close>, \<open>0.6\<close>) is the double \<open>r\<close> gives it; the integer
  literals and \<open>30 * 24 * 60 * 60 * 1000\<close> are exact. The returned date is \<open>None\<close> when
  it is an invalid date.
\<close>

record factorsD =
  fd_temperature :: number
  fd_vibration :: number
  fd_efficiency :: number
  fd_runTime :: number
  fd_historicalPattern :: number

record assessmentD =
  da_riskScore :: number
  da_daysToMaintenance :: number
  da_predictedMaintenanceDate :: "int option"
  da_factors :: factorsD
  da_recommendation :: recommendation

datatype resultD = NullD | AssessmentD assessmentD | OfPrototypeMemberD

definition factorsOfD :: "(real \<Rightarrow> number) \<Rightarrow> machine \<Rightarrow> int \<Rightarrow> real \<Rightarrow> factorsD" where
  "factorsOfD r machine now1 rnd =
     \<lparr>fd_temperature = Num (temperature machine),
      fd_vibration = Num (vibration machine),
      fd_efficiency = Num (efficiency machine),
      fd_runTime =
        jsSub r (Num (real_of_int now1)) (Num (real_of_int (lastMaintenance machine))),
      fd_historicalPattern = jsAdd r (jsMul r (Num rnd) (r 0.3)) (r 0.7)\<rparr>"

definition tempRiskD :: "(real \<Rightarrow> number) \<Rightarrow> factorsD \<Rightarrow> number" where
  "tempRiskD r f = mathMax 0 (jsDivBy r (jsSub r (fd_temperature f) (Num 75)) 25)"

definition vibrationRiskD :: "(real \<Rightarrow> number) \<Rightarrow> factorsD \<Rightarrow> number" where
  "vibrationRiskD r f = jsDivBy r (fd_vibration f) 10"

definition efficiencyRiskD :: "(real \<Rightarrow> number) \<Rightarrow> factorsD \<Rightarrow> number" where
  "efficiencyRiskD r f = mathMax 0 (jsDivBy r (jsSub r (Num 85) (fd_efficiency f)) 20)"

definition timeRiskD :: "(real \<Rightarrow> number) \<Rightarrow> factorsD \<Rightarrow> number" where
  "timeRiskD r f = mathMin 1 (jsDivBy r (fd_runTime f) (30 * 24 * 60 * 60 * 1000))"

definition overallRiskD :: "(real \<Rightarrow> number) \<Rightarrow> factorsD \<Rightarrow> number" where
  "overallRiskD r f =
     jsDivBy r
       (jsAdd r
          (jsAdd r (jsAdd r (tempRiskD r f) (vibrationRiskD r f)) (efficiencyRiskD r f))
          (timeRiskD r f)) 4"

text \<open>
  The constant \<open>daysToMaintenance\<close>, \<open>Math.max(0, 14 - (overallRisk * 14))\<close>, and the
  date, \<open>new Date(Date.now() + daysToMaintenance * 24 * 60 * 60 * 1000)\<close>.
\<close>

definition daysToMaintenanceD :: "(real \<Rightarrow> number) \<Rightarrow> number \<Rightarrow> number" where
  "daysToMaintenanceD r overall = mathMax 0 (jsSub r (Num 14) (jsMul r overall (Num 14)))"

definition maintenanceDateD :: "(real \<Rightarrow> number) \<Rightarrow> int \<Rightarrow> number \<Rightarrow> int option" where
  "maintenanceDateD r now2 days =
     newDateD (jsAdd r (Num (real_of_int now2))
       (jsMul r (jsMul r (jsMul r (jsMul r days (Num 24)) (Num 60)) (Num 60)) (Num 1000)))"

definition getMaintenanceRecommendationD ::
  "(real \<Rightarrow> number) \<Rightarrow> number \<Rightarrow> number \<Rightarrow> recommendation" where
  "getMaintenanceRecommendationD r riskScore days =
     (if greater riskScore (r 0.8) then \<lparr>priority = ''CRITICAL'', color = ''#ff4757''\<rparr>
      else if greater riskScore (r 0.6) then \<lparr>priority = ''HIGH'', color = ''#ffa502''\<rparr>
      else if lessEq days (Num 2) then \<lparr>priority = ''MEDIUM'', color = ''#3742fa''\<rparr>
      else \<lparr>priority = ''LOW'', color = ''#00ff88''\<rparr>)"

definition calculatePredictiveMaintenanceD ::
  "(real \<Rightarrow> number) \<Rightarrow> factory \<Rightarrow> string \<Rightarrow> int \<Rightarrow> real \<Rightarrow> int \<Rightarrow> resultD" where
  "calculatePredictiveMaintenanceD r s machineId now1 rnd now2 =
     (case getProperty (machines s) machineId of
        Undefined \<Rightarrow> NullD
      | Inherited \<Rightarrow> OfPrototypeMemberD
      | Own machine \<Rightarrow>
          (let f = factorsOfD r machine now1 rnd;
               overall = overallRiskD r f;
               days = daysToMaintenanceD r overall
           in AssessmentD
                \<lparr>da_riskScore = overall,
                 da_daysToMaintenance = mathRoundD days,
                 da_predictedMaintenanceDate = maintenanceDateD r now2 days,
                 da_factors = f,
                 da_recommendation = getMaintenanceRecommendationD r overall days\<rparr>))"

subsection \<open>Concrete inputs of the examples\<close>

text \<open>Frames for machine C1 of the demo layout, and one naming no machine.\<close>

definition frame :: "string \<Rightarrow> string \<Rightarrow> real option \<Rightarrow> real option \<Rightarrow> real option \<Rightarrow> data" where
  "frame machineId status t v e =
     \<lparr>d_type = ''machineStatus'', d_machineId = machineId, d_status = status,
      d_temperature = t, d_vibration = v, d_efficiency = e, d_message = []\<rparr>"

definition offlineC1 :: data where
  "offlineC1 = frame ''MACHINE_C1'' ''offline'' None None None"

definition idleC1 :: data where
  "idleC1 = frame ''MACHINE_C1'' ''offline'' None (Some 0) None"

definition warmC1 :: data where
  "warmC1 = frame ''MACHINE_C1'' ''running'' (Some 90) None None"

definition tunedC1 :: data where
  "tunedC1 = frame ''MACHINE_C1'' ''running'' (Some 80) (Some 4) (Some 79)"

definition strainedC1 :: data where
  "strainedC1 = frame ''MACHINE_C1'' ''running'' (Some 110) (Some 8) (Some 81)"

definition overheatedC1 :: data where
  "overheatedC1 = frame ''MACHINE_C1'' ''running'' (Some 150) (Some 12) (Some 25)"

definition toStringFrame :: data where
  "toStringFrame = frame ''toString'' ''running'' None None None"

text \<open>
  A worker at \<open>https://factory.example\<close>, a network that answers every request with
  status 200, and a storage that holds one cache of the previous version.
\<close>

definition exampleResolve :: "string \<Rightarrow> string" where
  "exampleResolve u = (if startsWith u ''http'' then u else ''https://factory.example'' @ u)"

definition exampleNetwork :: network where
  "exampleNetwork u = Some \<lparr>resp_status = 200, resp_type = ''basic'', resp_body = u\<rparr>"

definition exampleCaches :: cacheStorage where
  "exampleCaches =
     [(''smart-factory-v1.1'',
       [''https://factory.example/'' \<mapsto>
          \<lparr>resp_status = 200, resp_type = ''basic'', resp_body = ''old''\<rparr>])]"

text \<open>The object after \<open>init\<close> and the socket's opening.\<close>

definition connectedFactory :: factory where
  "connectedFactory = occur (init newFactory (\<lambda>lineId index. midDraws)) SocketOpened"

section \<open>Properties\<close>

subsection \<open>The demo layout, evaluated\<close>

lemmas demo_defs =
  demoFactory_def createDemoLayout_def createProductionLine_def Let_def
  lineA_def lineB_def lineC_def calculateLineStatus_def createMachine_def
  newFactory_def midDraws_def newDate_def

lemma demoFactory_C1:
  "machines demoFactory ''MACHINE_C1'' =
     Some \<lparr>m_id = ''MACHINE_C1'', m_name = ''Injection Molder C1'', m_status = ''running'',
           temperature = 75, vibration = 5, efficiency = 85,
           lastMaintenance = 1698704000000, nextMaintenance = 1701296000000\<rparr>"
  by (simp add: demo_defs)

lemma demoFactory_toString: "machines demoFactory ''toString'' = None"
  by (simp add: demo_defs)

lemma demoFactory_lineC:
  "productionLines demoFactory ''C'' =
     Some \<lparr>l_id = ''C'', l_name = ''Consumer Goods'', l_status = ''running'',
           l_machines = [''MACHINE_C1'', ''MACHINE_C2'', ''MACHINE_C3'', ''MACHINE_C4''],
           l_color = ''green'', l_position = 6\<rparr>"
  by (simp add: demo_defs)

lemma demoFactory_lineC_members:
  "map_option m_status (machines demoFactory ''MACHINE_C2'') = Some ''running''"
  "map_option m_status (machines demoFactory ''MACHINE_C3'') = Some ''running''"
  "map_option m_status (machines demoFactory ''MACHINE_C4'') = Some ''running''"
  by (simp_all add: demo_defs)

subsection \<open>C1: the aggregation function is the three-rule function\<close>

lemma includes_iff:
  "(a \<in> set ss \<or> b \<in> set ss) = (\<exists>s \<in> set ss. s = a \<or> s = b)"
  by auto

lemma calculateLineStatus_rule:
  "calculateLineStatus machinesConfig = lineStatusRule (map cfg_status machinesConfig)"
  unfolding calculateLineStatus_def lineStatusRule_def Let_def list_all_iff includes_iff
  by (rule refl)

text \<open>
  C1. For every list of member configurations, \<open>calculateLineStatus\<close> returns what the
  three rules of the specification give on the list of their statuses: \<open>stopped\<close> when
  some status is \<open>offline\<close> or \<open>maintenance\<close>, else \<open>running\<close> when every status is
  \<open>running\<close>, else \<open>warning\<close>. (On the empty list both give \<open>running\<close>.)
\<close>

theorem calculateLineStatus_is_rule:
  "calculateLineStatus machinesConfig = lineStatusRule (map cfg_status machinesConfig)"
  by (rule calculateLineStatus_rule)

theorem calculateLineStatus_is_rule_witness:
  "calculateLineStatus lineA = ''stopped''
   \<and> lineStatusRule [''running'', ''running'', ''maintenance'', ''stopped''] = ''stopped''
   \<and> calculateLineStatus lineC = ''running''
   \<and> lineStatusRule [''running'', ''stopped''] = ''warning''"
  by (simp add: calculateLineStatus_is_rule lineStatusRule_def lineA_def lineC_def)

subsection \<open>C2: what telemetry does to a line's status\<close>

lemma handleRealtimeData_productionLines:
  "handleRealtimeData s d = Normal s1 \<or> handleRealtimeData s d = Thrown e s1 \<Longrightarrow>
   productionLines s1 = productionLines s"
  by (auto simp: handleRealtimeData_def Let_def split: if_splits property.splits)

lemma onmessage_productionLines: "productionLines (onmessage s fr) = productionLines s"
proof (cases fr)
  case None
  then show ?thesis by (simp add: onmessage_def)
next
  case (Some d)
  show ?thesis
  proof (cases "handleRealtimeData s d")
    case (Normal s1)
    then show ?thesis
      using handleRealtimeData_productionLines [of s d s1] Some by (simp add: onmessage_def)
  next
    case (Thrown e s1)
    then show ?thesis
      using handleRealtimeData_productionLines [of s d s1 e] Some by (simp add: onmessage_def)
  qed
qed

lemma foldl_onmessage_productionLines:
  "productionLines (foldl onmessage s frames) = productionLines s"
  by (induction frames arbitrary: s) (simp_all add: onmessage_productionLines)

lemma createProductionLine_line:
  "productionLines (createProductionLine s lineId lineName machinesConfig z col dr) lineId =
     Some \<lparr>l_id = lineId, l_name = lineName, l_status = calculateLineStatus machinesConfig,
           l_machines = map cfg_id machinesConfig, l_color = col, l_position = z\<rparr>"
  by (simp add: createProductionLine_def Let_def)

lemma onmessage_offlineC1:
  "machines (onmessage demoFactory (Some offlineC1)) =
     (machines demoFactory)(''MACHINE_C1'' \<mapsto>
       \<lparr>m_id = ''MACHINE_C1'', m_name = ''Injection Molder C1'', m_status = ''offline'',
        temperature = 75, vibration = 5, efficiency = 85,
        lastMaintenance = 1698704000000, nextMaintenance = 1701296000000\<rparr>)"
  by (simp add: onmessage_def handleRealtimeData_def getProperty_def demoFactory_C1
      offlineC1_def frame_def orElse_def)

text \<open>
  C2, as stated, fails. In the demo layout line C is \<open>running\<close>; after the frame that
  reports machine C1 \<open>offline\<close> the line still says \<open>running\<close>, while its member
  statuses are now \<open>offline, running, running, running\<close>, on which the rule gives
  \<open>stopped\<close>.
\<close>

theorem line_status_stale_counterexample:
  "map_option l_status (productionLines (onmessage demoFactory (Some offlineC1)) ''C'') =
     Some ''running''
   \<and> map_option (memberStatuses (onmessage demoFactory (Some offlineC1)))
        (productionLines (onmessage demoFactory (Some offlineC1)) ''C'') =
     Some [Some ''offline'', Some ''running'', Some ''running'', Some ''running'']
   \<and> lineStatusRule [''offline'', ''running'', ''running'', ''running''] = ''stopped''"
  by (simp add: onmessage_productionLines demoFactory_lineC memberStatuses_def
      onmessage_offlineC1 demoFactory_lineC_members lineStatusRule_def)

text \<open>
  C2, amended. Frames never change \<open>this.productionLines\<close>: after any sequence of
  frames every line is as it was, and the status of a line is still the one that
  \<open>createProductionLine\<close> stored, the aggregation rule on the statuses the line was
  configured with.
\<close>

theorem line_status_fixed_at_construction:
  "productionLines (foldl onmessage s frames) = productionLines s \<and>
   map_option l_status
     (productionLines
        (foldl onmessage
           (createProductionLine s0 lineId lineName machinesConfig zPosition lineColor dr)
           frames) lineId) =
     Some (lineStatusRule (map cfg_status machinesConfig))"
  by (simp add: foldl_onmessage_productionLines createProductionLine_line
      calculateLineStatus_rule)

theorem line_status_fixed_at_construction_witness:
  "productionLines (foldl onmessage demoFactory [Some offlineC1, None, Some warmC1]) =
     productionLines demoFactory \<and>
   map_option l_status
     (productionLines
        (foldl onmessage
           (createProductionLine newFactory ''C'' ''Consumer Goods'' lineC 6 ''green''
              (\<lambda>index. midDraws))
           [Some offlineC1, None, Some warmC1]) ''C'') = Some ''running''"
  using line_status_fixed_at_construction
    [of demoFactory "[Some offlineC1, None, Some warmC1]" newFactory "''C''"
        "''Consumer Goods''" lineC 6 "''green''" "\<lambda>index. midDraws"]
  by (simp add: lineStatusRule_def lineC_def)

subsection \<open>C3: which fields a frame overwrites\<close>

text \<open>
  What the handler does to a stored machine: the status is overwritten, a metric is
  overwritten when the frame carries it and it is not zero, and kept otherwise.
\<close>

lemma handleRealtimeData_own:
  assumes "machines s (d_machineId d) = Some m" and "d_type d = ''machineStatus''"
  shows "handleRealtimeData s d =
           Normal (s\<lparr>machines := (machines s)(d_machineId d \<mapsto>
             m\<lparr>m_status := d_status d,
               temperature := orElse (d_temperature d) (temperature m),
               vibration := orElse (d_vibration d) (vibration m),
               efficiency := orElse (d_efficiency d) (efficiency m)\<rparr>)\<rparr>)"
  using assms by (simp add: handleRealtimeData_def getProperty_def Let_def)

lemma orElse_cases:
  "orElse None b = b" "orElse (Some 0) b = b" "v \<noteq> 0 \<Longrightarrow> orElse (Some v) b = v"
  by (simp_all add: orElse_def)

text \<open>
  C3 at a frame that carries a metric with value zero. Machine C1 of the demo layout
  has vibration 5. The frame reports it \<open>offline\<close> with \<open>vibration: 0\<close>. The status is
  overwritten, and the vibration, present in the frame, is not: it is still 5.
\<close>

theorem zero_metric_not_overwritten:
  "map_option vibration (machines demoFactory ''MACHINE_C1'') = Some 5
   \<and> d_vibration idleC1 = Some 0
   \<and> map_option m_status (machines (onmessage demoFactory (Some idleC1)) ''MACHINE_C1'') =
       Some ''offline''
   \<and> map_option vibration (machines (onmessage demoFactory (Some idleC1)) ''MACHINE_C1'') =
       Some 5"
  by (simp add: onmessage_def handleRealtimeData_def getProperty_def demoFactory_C1
      idleC1_def frame_def orElse_def)

subsection \<open>The assessment of a stored machine\<close>

lemmas risk_defs =
  tempRisk_def vibrationRisk_def efficiencyRisk_def timeRisk_def overallRisk_def
  daysToMaintenance_def

lemma calculatePredictiveMaintenance_own:
  "machines s i = Some m \<Longrightarrow>
   calculatePredictiveMaintenance s i now1 rnd now2 =
     Assessment
       \<lparr>a_riskScore = overallRisk (factorsOf m now1 rnd),
        a_daysToMaintenance = mathRound (daysToMaintenance (factorsOf m now1 rnd)),
        a_predictedMaintenanceDate =
          newDate (real_of_int now2 + daysToMaintenance (factorsOf m now1 rnd) * 24 * 60 * 60 * 1000),
        a_factors = factorsOf m now1 rnd,
        a_recommendation =
          getMaintenanceRecommendation (overallRisk (factorsOf m now1 rnd))
            (daysToMaintenance (factorsOf m now1 rnd))\<rparr>"
  by (simp add: calculatePredictiveMaintenance_def getProperty_def Let_def)

lemma onmessage_warmC1:
  "machines (onmessage demoFactory (Some warmC1)) ''MACHINE_C1'' =
     Some \<lparr>m_id = ''MACHINE_C1'', m_name = ''Injection Molder C1'', m_status = ''running'',
           temperature = 90, vibration = 5, efficiency = 85,
           lastMaintenance = 1698704000000, nextMaintenance = 1701296000000\<rparr>"
  by (simp add: onmessage_def handleRealtimeData_def getProperty_def demoFactory_C1
      warmC1_def frame_def orElse_def)

lemma onmessage_overheatedC1:
  "machines (onmessage demoFactory (Some overheatedC1)) ''MACHINE_C1'' =
     Some \<lparr>m_id = ''MACHINE_C1'', m_name = ''Injection Molder C1'', m_status = ''running'',
           temperature = 150, vibration = 12, efficiency = 25,
           lastMaintenance = 1698704000000, nextMaintenance = 1701296000000\<rparr>"
  by (simp add: onmessage_def handleRealtimeData_def getProperty_def demoFactory_C1
      overheatedC1_def frame_def orElse_def)

subsection \<open>C4: the range of the risk components\<close>

text \<open>
  The bounds the code does enforce: the temperature and efficiency components are never
  negative and the time component never exceeds 1. With the metrics in the ranges
  \<open>createMachine\<close> draws them from, and the last maintenance not in the future, all four
  components and their mean are in the unit interval.
\<close>

lemma risk_one_sided:
  "0 \<le> tempRisk f" "0 \<le> efficiencyRisk f" "timeRisk f \<le> 1"
  by (simp_all add: risk_defs)

lemma risk_unit_interval_in_range:
  assumes "f_temperature f \<le> 100" and "0 \<le> f_vibration f" and "f_vibration f \<le> 10"
    and "65 \<le> f_efficiency f" and "0 \<le> f_runTime f"
  shows "0 \<le> tempRisk f \<and> tempRisk f \<le> 1 \<and> 0 \<le> vibrationRisk f \<and> vibrationRisk f \<le> 1
    \<and> 0 \<le> efficiencyRisk f \<and> efficiencyRisk f \<le> 1 \<and> 0 \<le> timeRisk f \<and> timeRisk f \<le> 1
    \<and> 0 \<le> overallRisk f \<and> overallRisk f \<le> 1"
proof -
  have t: "0 \<le> tempRisk f" "tempRisk f \<le> 1"
    using assms(1) by (simp_all add: tempRisk_def)
  have v: "0 \<le> vibrationRisk f" "vibrationRisk f \<le> 1"
    using assms(2,3) by (simp_all add: vibrationRisk_def)
  have e: "0 \<le> efficiencyRisk f" "efficiencyRisk f \<le> 1"
    using assms(4) by (simp_all add: efficiencyRisk_def)
  have r: "0 \<le> timeRisk f" "timeRisk f \<le> 1"
    using assms(5) by (simp_all add: timeRisk_def)
  have "0 \<le> overallRisk f" "overallRisk f \<le> 1"
    using t v e r by (simp_all add: overallRisk_def)
  with t v e r show ?thesis by simp
qed

text \<open>
  C4 at a machine whose metrics a frame has set outside those ranges. After the frame
  \<open>temperature: 150, vibration: 12, efficiency: 25\<close> for machine C1, fifteen days after
  its last maintenance, the temperature component is 3, the vibration component 6/5,
  the efficiency component 3, and the returned risk score 77/40: none of them is in the
  unit interval.
\<close>

theorem risk_above_one:
  "map_option (tempRisk \<circ> a_factors)
     (theAssessment (calculatePredictiveMaintenance (onmessage demoFactory (Some overheatedC1))
        ''MACHINE_C1'' 1700000000000 0 1700000000000)) = Some 3
   \<and> map_option (vibrationRisk \<circ> a_factors)
     (theAssessment (calculatePredictiveMaintenance (onmessage demoFactory (Some overheatedC1))
        ''MACHINE_C1'' 1700000000000 0 1700000000000)) = Some (6 / 5)
   \<and> map_option (efficiencyRisk \<circ> a_factors)
     (theAssessment (calculatePredictiveMaintenance (onmessage demoFactory (Some overheatedC1))
        ''MACHINE_C1'' 1700000000000 0 1700000000000)) = Some 3
   \<and> map_option a_riskScore
     (theAssessment (calculatePredictiveMaintenance (onmessage demoFactory (Some overheatedC1))
        ''MACHINE_C1'' 1700000000000 0 1700000000000)) = Some (77 / 40)"
  by (simp add: calculatePredictiveMaintenance_own [OF onmessage_overheatedC1]
      theAssessment_def factorsOf_def risk_defs)

subsection \<open>C5: the returned days and date\<close>

text \<open>
  C5, as stated, fails. For machine C1 of the demo layout, fifteen days after its last
  maintenance, the risk is 1/4, so \<open>max(0, 14 - risk * 14)\<close> is 10.5; the returned
  \<open>daysToMaintenance\<close> is 11. The returned date is 10.5 days after the clock reading,
  not 11.
\<close>

theorem days_rounded_counterexample:
  "map_option a_riskScore
     (theAssessment (calculatePredictiveMaintenance demoFactory ''MACHINE_C1''
        1700000000000 0 1700000000000)) = Some (1 / 4)
   \<and> max 0 (14 - (1 / 4) * 14) = (21 / 2 :: real)
   \<and> map_option a_daysToMaintenance
     (theAssessment (calculatePredictiveMaintenance demoFactory ''MACHINE_C1''
        1700000000000 0 1700000000000)) = Some 11
   \<and> map_option a_predictedMaintenanceDate
     (theAssessment (calculatePredictiveMaintenance demoFactory ''MACHINE_C1''
        1700000000000 0 1700000000000)) = Some (1700000000000 + 907200000)"
  by (simp add: calculatePredictiveMaintenance_own [OF demoFactory_C1]
      theAssessment_def factorsOf_def risk_defs mathRound_def newDate_def)

lemma mathRound_near: "\<bar>real_of_int (mathRound x) - x\<bar> \<le> 1 / 2"
  unfolding mathRound_def by linarith

lemma mathRound_nonneg: "0 \<le> x \<Longrightarrow> 0 \<le> mathRound x"
  unfolding mathRound_def by linarith

lemma mathMax_Num: "mathMax c v = Num d \<Longrightarrow> c \<le> d"
  by (cases v) auto

lemma calculatePredictiveMaintenanceD_own:
  "machines s i = Some m \<Longrightarrow>
   calculatePredictiveMaintenanceD r s i now1 rnd now2 =
     AssessmentD
       \<lparr>da_riskScore = overallRiskD r (factorsOfD r m now1 rnd),
        da_daysToMaintenance =
          mathRoundD (daysToMaintenanceD r (overallRiskD r (factorsOfD r m now1 rnd))),
        da_predictedMaintenanceDate =
          maintenanceDateD r now2
            (daysToMaintenanceD r (overallRiskD r (factorsOfD r m now1 rnd))),
        da_factors = factorsOfD r m now1 rnd,
        da_recommendation =
          getMaintenanceRecommendationD r (overallRiskD r (factorsOfD r m now1 rnd))
            (daysToMaintenanceD r (overallRiskD r (factorsOfD r m now1 rnd)))\<rparr>"
  by (simp add: calculatePredictiveMaintenanceD_def getProperty_def Let_def)

text \<open>
  With a rounding that rounds nothing, the double model computes the risk and the days
  of the model over the reals.
\<close>

lemma without_rounding:
  "overallRiskD Num (factorsOfD Num m now1 rnd) = Num (overallRisk (factorsOf m now1 rnd))"
  "daysToMaintenanceD Num (Num x) = Num (max 0 (14 - x * 14))"
  "mathRoundD (Num y) = Num (real_of_int (mathRound y))"
  by (simp_all add: overallRiskD_def tempRiskD_def vibrationRiskD_def efficiencyRiskD_def
      timeRiskD_def factorsOfD_def jsSub_def daysToMaintenanceD_def risk_defs factorsOf_def)

text \<open>
  C5, amended. For a stored machine the method returns an assessment. Write \<open>D\<close> for
  \<open>max(0, 14 - riskScore * 14)\<close> evaluated in double arithmetic on the returned
  \<open>riskScore\<close>. The returned \<open>daysToMaintenance\<close> is \<open>Math.round(D)\<close>: when \<open>D\<close> is a
  number it is not negative, and the returned value is a whole number, not negative and
  at most half a day away from \<open>D\<close>. The returned \<open>predictedMaintenanceDate\<close> is
  \<open>new Date(now2 + D * 24 * 60 * 60 * 1000)\<close>, also in double arithmetic: the clock
  reading plus the unrounded \<open>D\<close> days, cut to whole milliseconds, and an invalid date
  when that is outside the range of \<open>Date\<close> or not a number. This holds for every
  rounding \<open>r\<close>, so for the rounding of doubles.
\<close>

theorem days_and_date_in_doubles:
  assumes "machines s machineId = Some m"
  shows "\<exists>a. calculatePredictiveMaintenanceD r s machineId now1 rnd now2 = AssessmentD a \<and>
     da_daysToMaintenance a = mathRoundD (daysToMaintenanceD r (da_riskScore a)) \<and>
     da_predictedMaintenanceDate a =
       maintenanceDateD r now2 (daysToMaintenanceD r (da_riskScore a)) \<and>
     (\<forall>d. daysToMaintenanceD r (da_riskScore a) = Num d \<longrightarrow>
        0 \<le> d \<and>
        (\<exists>k. 0 \<le> k \<and> da_daysToMaintenance a = Num (real_of_int k) \<and>
             \<bar>real_of_int k - d\<bar> \<le> 1 / 2))"
proof -
  let ?risk = "overallRiskD r (factorsOfD r m now1 rnd)"
  have rounded: "0 \<le> d \<and>
        (\<exists>k. 0 \<le> k \<and> mathRoundD (daysToMaintenanceD r ?risk) = Num (real_of_int k) \<and>
             \<bar>real_of_int k - d\<bar> \<le> 1 / 2)"
    if d: "daysToMaintenanceD r ?risk = Num d" for d
  proof -
    have nonneg: "0 \<le> d"
      using d unfolding daysToMaintenanceD_def by (rule mathMax_Num)
    have "mathRoundD (daysToMaintenanceD r ?risk) = Num (real_of_int (mathRound d))"
      by (simp add: d)
    then show ?thesis
      using nonneg mathRound_nonneg [OF nonneg] mathRound_near [of d] by blast
  qed
  show ?thesis
    using rounded by (simp add: calculatePredictiveMaintenanceD_own [OF assms])
qed

text \<open>
  The doubles of the two examples: \<open>roundDouble\<close> evaluated on every exact result that
  the method computes for machine C1 with the metrics 80, 4, 79 three days after its
  maintenance, with the metrics 75, 5, 85 fifteen days after it, and with the metrics
  110, 8, 81 eighteen days after it.
\<close>

lemma roundDouble_eval:
  assumes "x \<noteq> 0" and "exponentOf \<bar>x\<bar> = e"
    and "roundHalfEven (\<bar>x\<bar> / pow2 (e - 52)) = n"
  shows "roundDouble x =
     (if 2 ^ 1024 \<le> real_of_int n * pow2 (e - 52)
      then (if 0 < x then PosInfinity else NegInfinity)
      else Num (if 0 < x then real_of_int n * pow2 (e - 52)
                else - (real_of_int n * pow2 (e - 52))))"
  unfolding roundDouble_def Let_def assms(2) assms(3) using assms(1) by simp

lemma roundDouble_zero: "roundDouble 0 = Num 0"
  by (simp add: roundDouble_def)

lemma roundDouble_v0: "roundDouble (5) = Num (5)"
  using roundDouble_eval [of "5" "2" "5629499534213120"]
  by (simp add: exponentOf_def bitLength.simps roundHalfEven_def Let_def pow2_def)

lemma roundDouble_v1: "roundDouble (1 / 5) = Num (3602879701896397 / 18014398509481984)"
  using roundDouble_eval [of "1 / 5" "-3" "7205759403792794"]
  by (simp add: exponentOf_def bitLength.simps roundHalfEven_def Let_def pow2_def)

lemma roundDouble_v2: "roundDouble (2 / 5) = Num (3602879701896397 / 9007199254740992)"
  using roundDouble_eval [of "2 / 5" "-2" "7205759403792794"]
  by (simp add: exponentOf_def bitLength.simps roundHalfEven_def Let_def pow2_def)

lemma roundDouble_v3: "roundDouble (6) = Num (6)"
  using roundDouble_eval [of "6" "2" "6755399441055744"]
  by (simp add: exponentOf_def bitLength.simps roundHalfEven_def Let_def pow2_def)

lemma roundDouble_v4: "roundDouble (3 / 10) = Num (5404319552844595 / 18014398509481984)"
  using roundDouble_eval [of "3 / 10" "-2" "5404319552844595"]
  by (simp add: exponentOf_def bitLength.simps roundHalfEven_def Let_def pow2_def)

lemma roundDouble_v5: "roundDouble (259200000) = Num (259200000)"
  using roundDouble_eval [of "259200000" "27" "8697308774400000"]
  by (simp add: exponentOf_def bitLength.simps roundHalfEven_def Let_def pow2_def)

lemma roundDouble_v6: "roundDouble (1 / 10) = Num (3602879701896397 / 36028797018963968)"
  using roundDouble_eval [of "1 / 10" "-4" "7205759403792794"]
  by (simp add: exponentOf_def bitLength.simps roundHalfEven_def Let_def pow2_def)

lemma roundDouble_v7: "roundDouble (10808639105689191 / 18014398509481984) = Num (1351079888211149 / 2251799813685248)"
  using roundDouble_eval [of "10808639105689191 / 18014398509481984" "-1" "5404319552844596"]
  by (simp add: exponentOf_def bitLength.simps roundHalfEven_def Let_def pow2_def)

lemma roundDouble_v8: "roundDouble (16212958658533787 / 18014398509481984) = Num (4053239664633447 / 4503599627370496)"
  using roundDouble_eval [of "16212958658533787 / 18014398509481984" "-1" "8106479329266894"]
  by (simp add: exponentOf_def bitLength.simps roundHalfEven_def Let_def pow2_def)

lemma roundDouble_v9: "roundDouble (36028797018963973 / 36028797018963968) = Num (4503599627370497 / 4503599627370496)"
  using roundDouble_eval [of "36028797018963973 / 36028797018963968" "0" "4503599627370497"]
  by (simp add: exponentOf_def bitLength.simps roundHalfEven_def Let_def pow2_def)

lemma roundDouble_v10: "roundDouble (4503599627370497 / 18014398509481984) = Num (4503599627370497 / 18014398509481984)"
  using roundDouble_eval [of "4503599627370497 / 18014398509481984" "-2" "4503599627370497"]
  by (simp add: exponentOf_def bitLength.simps roundHalfEven_def Let_def pow2_def)

lemma roundDouble_v11: "roundDouble (31525197391593479 / 9007199254740992) = Num (3940649673949185 / 1125899906842624)"
  using roundDouble_eval [of "31525197391593479 / 9007199254740992" "1" "7881299347898370"]
  by (simp add: exponentOf_def bitLength.simps roundHalfEven_def Let_def pow2_def)

lemma roundDouble_v12: "roundDouble (11821949021847551 / 1125899906842624) = Num (21 / 2)"
  using roundDouble_eval [of "11821949021847551 / 1125899906842624" "3" "5910974510923776"]
  by (simp add: exponentOf_def bitLength.simps roundHalfEven_def Let_def pow2_def)

lemma roundDouble_v13: "roundDouble (252) = Num (252)"
  using roundDouble_eval [of "252" "7" "8866461766385664"]
  by (simp add: exponentOf_def bitLength.simps roundHalfEven_def Let_def pow2_def)

lemma roundDouble_v14: "roundDouble (15120) = Num (15120)"
  using roundDouble_eval [of "15120" "13" "8312307905986560"]
  by (simp add: exponentOf_def bitLength.simps roundHalfEven_def Let_def pow2_def)

lemma roundDouble_v15: "roundDouble (907200) = Num (907200)"
  using roundDouble_eval [of "907200" "19" "7792788661862400"]
  by (simp add: exponentOf_def bitLength.simps roundHalfEven_def Let_def pow2_def)

lemma roundDouble_v16: "roundDouble (907200000) = Num (907200000)"
  using roundDouble_eval [of "907200000" "29" "7610145177600000"]
  by (simp add: exponentOf_def bitLength.simps roundHalfEven_def Let_def pow2_def)

lemma roundDouble_v17: "roundDouble (1699870400000) = Num (1699870400000)"
  using roundDouble_eval [of "1699870400000" "40" "6962669158400000"]
  by (simp add: exponentOf_def bitLength.simps roundHalfEven_def Let_def pow2_def)

lemma roundDouble_v18: "roundDouble (1 / 2) = Num (1 / 2)"
  using roundDouble_eval [of "1 / 2" "-1" "4503599627370496"]
  by (simp add: exponentOf_def bitLength.simps roundHalfEven_def Let_def pow2_def)

lemma roundDouble_v19: "roundDouble (1296000000) = Num (1296000000)"
  using roundDouble_eval [of "1296000000" "30" "5435817984000000"]
  by (simp add: exponentOf_def bitLength.simps roundHalfEven_def Let_def pow2_def)

lemma roundDouble_v20: "roundDouble (1) = Num (1)"
  using roundDouble_eval [of "1" "0" "4503599627370496"]
  by (simp add: exponentOf_def bitLength.simps roundHalfEven_def Let_def pow2_def)

lemma roundDouble_v21: "roundDouble (1 / 4) = Num (1 / 4)"
  using roundDouble_eval [of "1 / 4" "-2" "4503599627370496"]
  by (simp add: exponentOf_def bitLength.simps roundHalfEven_def Let_def pow2_def)

lemma roundDouble_v22: "roundDouble (7 / 2) = Num (7 / 2)"
  using roundDouble_eval [of "7 / 2" "1" "7881299347898368"]
  by (simp add: exponentOf_def bitLength.simps roundHalfEven_def Let_def pow2_def)

lemma roundDouble_v23: "roundDouble (21 / 2) = Num (21 / 2)"
  using roundDouble_eval [of "21 / 2" "3" "5910974510923776"]
  by (simp add: exponentOf_def bitLength.simps roundHalfEven_def Let_def pow2_def)

lemma roundDouble_v24: "roundDouble (1700907200000) = Num (1700907200000)"
  using roundDouble_eval [of "1700907200000" "40" "6966915891200000"]
  by (simp add: exponentOf_def bitLength.simps roundHalfEven_def Let_def pow2_def)

lemma roundDouble_v25: "roundDouble (35) = Num (35)"
  using roundDouble_eval [of "35" "5" "4925812092436480"]
  by (simp add: exponentOf_def bitLength.simps roundHalfEven_def Let_def pow2_def)

lemma roundDouble_v26: "roundDouble (7 / 5) = Num (3152519739159347 / 2251799813685248)"
  using roundDouble_eval [of "7 / 5" "0" "6305039478318694"]
  by (simp add: exponentOf_def bitLength.simps roundHalfEven_def Let_def pow2_def)

lemma roundDouble_v27: "roundDouble (4 / 5) = Num (3602879701896397 / 4503599627370496)"
  using roundDouble_eval [of "4 / 5" "-1" "7205759403792794"]
  by (simp add: exponentOf_def bitLength.simps roundHalfEven_def Let_def pow2_def)

lemma roundDouble_v28: "roundDouble (4) = Num (4)"
  using roundDouble_eval [of "4" "2" "4503599627370496"]
  by (simp add: exponentOf_def bitLength.simps roundHalfEven_def Let_def pow2_def)

lemma roundDouble_v29: "roundDouble (1555200000) = Num (1555200000)"
  using roundDouble_eval [of "1555200000" "30" "6522981580800000"]
  by (simp add: exponentOf_def bitLength.simps roundHalfEven_def Let_def pow2_def)

lemma roundDouble_v30: "roundDouble (3 / 5) = Num (5404319552844595 / 9007199254740992)"
  using roundDouble_eval [of "3 / 5" "-1" "5404319552844595"]
  by (simp add: exponentOf_def bitLength.simps roundHalfEven_def Let_def pow2_def)

lemma roundDouble_v31: "roundDouble (9907919180215091 / 4503599627370496) = Num (2476979795053773 / 1125899906842624)"
  using roundDouble_eval [of "9907919180215091 / 4503599627370496" "1" "4953959590107546"]
  by (simp add: exponentOf_def bitLength.simps roundHalfEven_def Let_def pow2_def)

lemma roundDouble_v32: "roundDouble (43234556422756765 / 18014398509481984) = Num (1351079888211149 / 562949953421312)"
  using roundDouble_eval [of "43234556422756765 / 18014398509481984" "1" "5404319552844596"]
  by (simp add: exponentOf_def bitLength.simps roundHalfEven_def Let_def pow2_def)

lemma roundDouble_v33: "roundDouble (27021597764222979 / 9007199254740992) = Num (6755399441055745 / 2251799813685248)"
  using roundDouble_eval [of "27021597764222979 / 9007199254740992" "1" "6755399441055745"]
  by (simp add: exponentOf_def bitLength.simps roundHalfEven_def Let_def pow2_def)

lemma roundDouble_v34: "roundDouble (6755399441055745 / 9007199254740992) = Num (6755399441055745 / 9007199254740992)"
  using roundDouble_eval [of "6755399441055745 / 9007199254740992" "-1" "6755399441055745"]
  by (simp add: exponentOf_def bitLength.simps roundHalfEven_def Let_def pow2_def)

lemma roundDouble_v35: "roundDouble (47287796087390215 / 4503599627370496) = Num (5910974510923777 / 562949953421312)"
  using roundDouble_eval [of "47287796087390215 / 4503599627370496" "3" "5910974510923777"]
  by (simp add: exponentOf_def bitLength.simps roundHalfEven_def Let_def pow2_def)

lemma roundDouble_v36: "roundDouble (1970324836974591 / 562949953421312) = Num (1970324836974591 / 562949953421312)"
  using roundDouble_eval [of "1970324836974591 / 562949953421312" "1" "7881299347898364"]
  by (simp add: exponentOf_def bitLength.simps roundHalfEven_def Let_def pow2_def)

lemma roundDouble_v37: "roundDouble (5910974510923773 / 70368744177664) = Num (5910974510923773 / 70368744177664)"
  using roundDouble_eval [of "5910974510923773 / 70368744177664" "6" "5910974510923773"]
  by (simp add: exponentOf_def bitLength.simps roundHalfEven_def Let_def pow2_def)

lemma roundDouble_v38: "roundDouble (88664617663856595 / 17592186044416) = Num (5541538603991037 / 1099511627776)"
  using roundDouble_eval [of "88664617663856595 / 17592186044416" "12" "5541538603991037"]
  by (simp add: exponentOf_def bitLength.simps roundHalfEven_def Let_def pow2_def)

lemma roundDouble_v39: "roundDouble (83123079059865555 / 274877906944) = Num (5195192441241597 / 17179869184)"
  using roundDouble_eval [of "83123079059865555 / 274877906944" "18" "5195192441241597"]
  by (simp add: exponentOf_def bitLength.simps roundHalfEven_def Let_def pow2_def)

lemma roundDouble_v40: "roundDouble (649399055155199625 / 2147483648) = Num (5073430118399997 / 16777216)"
  using roundDouble_eval [of "649399055155199625 / 2147483648" "28" "5073430118399997"]
  by (simp add: exponentOf_def bitLength.simps roundHalfEven_def Let_def pow2_def)

lemma roundDouble_v41: "roundDouble (28530689284505599997 / 16777216) = Num (1700561600000)"
  using roundDouble_eval [of "28530689284505599997 / 16777216" "40" "6965500313600000"]
  by (simp add: exponentOf_def bitLength.simps roundHalfEven_def Let_def pow2_def)

lemmas roundDouble_values = roundDouble_v0 roundDouble_v1 roundDouble_v2 roundDouble_v3
  roundDouble_v4 roundDouble_v5 roundDouble_v6 roundDouble_v7 roundDouble_v8
  roundDouble_v9 roundDouble_v10 roundDouble_v11 roundDouble_v12 roundDouble_v13
  roundDouble_v14 roundDouble_v15 roundDouble_v16 roundDouble_v17 roundDouble_v18
  roundDouble_v19 roundDouble_v20 roundDouble_v21 roundDouble_v22 roundDouble_v23
  roundDouble_v24 roundDouble_v25 roundDouble_v26 roundDouble_v27 roundDouble_v28
  roundDouble_v29 roundDouble_v30 roundDouble_v31 roundDouble_v32 roundDouble_v33
  roundDouble_v34 roundDouble_v35 roundDouble_v36 roundDouble_v37 roundDouble_v38
  roundDouble_v39 roundDouble_v40 roundDouble_v41

lemma onmessage_tunedC1:
  "machines (onmessage demoFactory (Some tunedC1)) ''MACHINE_C1'' =
     Some \<lparr>m_id = ''MACHINE_C1'', m_name = ''Injection Molder C1'', m_status = ''running'',
           temperature = 80, vibration = 4, efficiency = 79,
           lastMaintenance = 1698704000000, nextMaintenance = 1701296000000\<rparr>"
  by (simp add: onmessage_def handleRealtimeData_def getProperty_def demoFactory_C1
      tunedC1_def frame_def orElse_def)

lemmas riskD_defs =
  overallRiskD_def tempRiskD_def vibrationRiskD_def efficiencyRiskD_def timeRiskD_def
  factorsOfD_def jsSub_def

lemma tuned_risk:
  "overallRiskD roundDouble
     (factorsOfD roundDouble
        \<lparr>m_id = ''MACHINE_C1'', m_name = ''Injection Molder C1'', m_status = ''running'',
         temperature = 80, vibration = 4, efficiency = 79,
         lastMaintenance = 1698704000000, nextMaintenance = 1701296000000\<rparr>
        1698963200000 0) = Num (4503599627370497 / 18014398509481984)"
  by (simp add: riskD_defs roundDouble_values)

lemma days_at_ten_and_a_half:
  "daysToMaintenanceD roundDouble (Num (4503599627370497 / 18014398509481984)) = Num (21 / 2)"
  "daysToMaintenanceD roundDouble (Num (1 / 4)) = Num (21 / 2)"
  by (simp_all add: daysToMaintenanceD_def jsSub_def roundDouble_values)

lemma date_after_ten_and_a_half:
  "maintenanceDateD roundDouble 1698963200000 (Num (21 / 2)) = Some 1699870400000"
  "maintenanceDateD roundDouble 1700000000000 (Num (21 / 2)) = Some 1700907200000"
  by (simp_all add: maintenanceDateD_def roundDouble_values newDate_def)

text \<open>
  The example of the counterexample above in doubles: every value in it is a double,
  and the method returns the same risk, days and date.
\<close>

lemma demo_assessment_in_doubles:
  "calculatePredictiveMaintenanceD roundDouble demoFactory ''MACHINE_C1''
     1700000000000 0 1700000000000 = AssessmentD a \<Longrightarrow>
   da_riskScore a = Num (1 / 4) \<and> da_daysToMaintenance a = Num 11 \<and>
   da_predictedMaintenanceDate a = Some 1700907200000"
  by (auto simp: calculatePredictiveMaintenanceD_own [OF demoFactory_C1] riskD_defs
      roundDouble_values roundDouble_zero days_at_ten_and_a_half date_after_ten_and_a_half
      mathRound_def)

text \<open>
  A second example where the rounding decides. With the metrics 110, 8, 81, eighteen
  days after the maintenance, the risk over the reals is 3/4 and the days 3.5, which
  \<open>Math.round\<close> takes to 4; in doubles the risk is \<open>3/4 + 2^(-53)\<close>, the days are
  just below 3.5, and the method returns 3.
\<close>

lemma onmessage_strainedC1:
  "machines (onmessage demoFactory (Some strainedC1)) ''MACHINE_C1'' =
     Some \<lparr>m_id = ''MACHINE_C1'', m_name = ''Injection Molder C1'', m_status = ''running'',
           temperature = 110, vibration = 8, efficiency = 81,
           lastMaintenance = 1698704000000, nextMaintenance = 1701296000000\<rparr>"
  by (simp add: onmessage_def handleRealtimeData_def getProperty_def demoFactory_C1
      strainedC1_def frame_def orElse_def)

lemma strained_assessment_in_doubles:
  "calculatePredictiveMaintenanceD roundDouble (onmessage demoFactory (Some strainedC1))
     ''MACHINE_C1'' 1700259200000 0 1700259200000 = AssessmentD a \<Longrightarrow>
   da_riskScore a = Num (6755399441055745 / 9007199254740992) \<and>
   da_daysToMaintenance a = Num 3 \<and>
   da_predictedMaintenanceDate a = Some 1700561600000"
  by (auto simp: calculatePredictiveMaintenanceD_own [OF onmessage_strainedC1] riskD_defs
      daysToMaintenanceD_def maintenanceDateD_def roundDouble_values mathRound_def
      newDate_def)

lemma strained_assessment_in_reals:
  "calculatePredictiveMaintenance (onmessage demoFactory (Some strainedC1))
     ''MACHINE_C1'' 1700259200000 0 1700259200000 = Assessment a \<Longrightarrow>
   a_riskScore a = 3 / 4 \<and> a_daysToMaintenance a = 4"
  by (auto simp: calculatePredictiveMaintenance_own [OF onmessage_strainedC1] factorsOf_def
      risk_defs mathRound_def)

text \<open>
  The witness is the machine with the metrics 80, 4, 79, three days after its
  maintenance: the sum of the four components rounds to \<open>1 + 2^(-52)\<close>, the risk is
  \<open>1/4 + 2^(-54)\<close>, \<open>D\<close> rounds to 10.5 and the method returns 11 days, where the same
  formula over the reals gives 10.
\<close>

theorem days_and_date_in_doubles_witness:
  "\<exists>a. calculatePredictiveMaintenanceD roundDouble (onmessage demoFactory (Some tunedC1))
          ''MACHINE_C1'' 1698963200000 0 1698963200000 = AssessmentD a \<and>
     da_riskScore a = Num (4503599627370497 / 18014398509481984) \<and>
     daysToMaintenanceD roundDouble (da_riskScore a) = Num (21 / 2) \<and>
     da_daysToMaintenance a = mathRoundD (daysToMaintenanceD roundDouble (da_riskScore a)) \<and>
     da_daysToMaintenance a = Num 11 \<and>
     da_predictedMaintenanceDate a =
       maintenanceDateD roundDouble 1698963200000
         (daysToMaintenanceD roundDouble (da_riskScore a)) \<and>
     da_predictedMaintenanceDate a = Some 1699870400000 \<and>
     mathRound (max 0 (14 - (4503599627370497 / 18014398509481984) * 14)) = 10"
proof -
  obtain a where a:
    "calculatePredictiveMaintenanceD roundDouble (onmessage demoFactory (Some tunedC1))
       ''MACHINE_C1'' 1698963200000 0 1698963200000 = AssessmentD a"
    "da_daysToMaintenance a = mathRoundD (daysToMaintenanceD roundDouble (da_riskScore a))"
    "da_predictedMaintenanceDate a =
       maintenanceDateD roundDouble 1698963200000
         (daysToMaintenanceD roundDouble (da_riskScore a))"
    using days_and_date_in_doubles [OF onmessage_tunedC1, of roundDouble 1698963200000 0
        1698963200000]
    by blast
  have risk: "da_riskScore a = Num (4503599627370497 / 18014398509481984)"
    using a(1)
    by (auto simp: calculatePredictiveMaintenanceD_own [OF onmessage_tunedC1] tuned_risk)
  have days: "daysToMaintenanceD roundDouble (da_riskScore a) = Num (21 / 2)"
    by (simp add: risk days_at_ten_and_a_half)
  have "da_daysToMaintenance a = Num 11"
    using a(2) by (simp add: days mathRound_def)
  moreover have "da_predictedMaintenanceDate a = Some 1699870400000"
    using a(3) by (simp add: days date_after_ten_and_a_half)
  moreover have "mathRound (max 0 (14 - (4503599627370497 / 18014398509481984) * 14)) = 10"
    by (simp add: mathRound_def)
  ultimately show ?thesis using a risk days by blast
qed

subsection \<open>C6: monotonicity of the risk score\<close>

lemma tempRisk_mono: "f_temperature f \<le> f_temperature g \<Longrightarrow> tempRisk f \<le> tempRisk g"
  unfolding tempRisk_def by (intro max.mono divide_right_mono) simp_all

lemma vibrationRisk_mono: "f_vibration f \<le> f_vibration g \<Longrightarrow> vibrationRisk f \<le> vibrationRisk g"
  unfolding vibrationRisk_def by (intro divide_right_mono) simp_all

lemma efficiencyRisk_antimono:
  "f_efficiency g \<le> f_efficiency f \<Longrightarrow> efficiencyRisk f \<le> efficiencyRisk g"
  unfolding efficiencyRisk_def by (intro max.mono divide_right_mono) simp_all

lemma timeRisk_mono: "f_runTime f \<le> f_runTime g \<Longrightarrow> timeRisk f \<le> timeRisk g"
  unfolding timeRisk_def by (intro min.mono divide_right_mono) simp_all

lemma overallRisk_mono:
  assumes "f_temperature f \<le> f_temperature g" and "f_vibration f \<le> f_vibration g"
    and "f_efficiency g \<le> f_efficiency f" and "f_runTime f \<le> f_runTime g"
  shows "overallRisk f \<le> overallRisk g"
  unfolding overallRisk_def
  using tempRisk_mono [OF assms(1)] vibrationRisk_mono [OF assms(2)]
    efficiencyRisk_antimono [OF assms(3)] timeRisk_mono [OF assms(4)]
  by (intro divide_right_mono add_mono) simp_all

text \<open>
  C6. Take two stored machines, each assessed at its own clock reading. When the second
  has a temperature, a vibration and a time since its last maintenance that are no
  lower, and an efficiency that is no higher, both assessments are returned and the
  risk score of the second is no lower. With three of the four inputs equal this is
  each of the four statements of the claim: raising the temperature, the vibration or
  the time since the last maintenance never lowers the risk score, and raising the
  efficiency never raises it. (Numbers are reals here.)
\<close>

theorem riskScore_monotonic:
  assumes "machines s1 i1 = Some m1" and "machines s2 i2 = Some m2"
    and "temperature m1 \<le> temperature m2"
    and "vibration m1 \<le> vibration m2"
    and "efficiency m2 \<le> efficiency m1"
    and "t1 - lastMaintenance m1 \<le> t2 - lastMaintenance m2"
  shows "\<exists>a1 a2. calculatePredictiveMaintenance s1 i1 t1 r1 n1 = Assessment a1 \<and>
    calculatePredictiveMaintenance s2 i2 t2 r2 n2 = Assessment a2 \<and>
    a_riskScore a1 \<le> a_riskScore a2"
proof -
  have "overallRisk (factorsOf m1 t1 r1) \<le> overallRisk (factorsOf m2 t2 r2)"
    using assms(3-6) by (intro overallRisk_mono) (simp_all add: factorsOf_def)
  then show ?thesis
    by (simp add: calculatePredictiveMaintenance_own [OF assms(1)]
        calculatePredictiveMaintenance_own [OF assms(2)])
qed

theorem riskScore_monotonic_witness:
  "\<exists>a1 a2.
     calculatePredictiveMaintenance demoFactory ''MACHINE_C1'' 1700000000000 0 1700000000000 =
       Assessment a1 \<and>
     calculatePredictiveMaintenance (onmessage demoFactory (Some warmC1)) ''MACHINE_C1''
       1700000000000 0 1700000000000 = Assessment a2 \<and>
     a_riskScore a1 \<le> a_riskScore a2 \<and> a_riskScore a1 = 1 / 4 \<and> a_riskScore a2 = 2 / 5"
proof -
  obtain a1 a2 where a:
    "calculatePredictiveMaintenance demoFactory ''MACHINE_C1'' 1700000000000 0 1700000000000 =
       Assessment a1"
    "calculatePredictiveMaintenance (onmessage demoFactory (Some warmC1)) ''MACHINE_C1''
       1700000000000 0 1700000000000 = Assessment a2"
    "a_riskScore a1 \<le> a_riskScore a2"
    using riskScore_monotonic [OF demoFactory_C1 onmessage_warmC1,
        of 1700000000000 1700000000000 0 1700000000000 0 1700000000000]
    by auto
  have "a_riskScore a1 = 1 / 4"
    using a(1)
    by (auto simp: calculatePredictiveMaintenance_own [OF demoFactory_C1] factorsOf_def
        risk_defs)
  moreover have "a_riskScore a2 = 2 / 5"
    using a(2)
    by (auto simp: calculatePredictiveMaintenance_own [OF onmessage_warmC1] factorsOf_def
        risk_defs)
  ultimately show ?thesis using a by blast
qed

subsection \<open>C7: install, then activate\<close>

lemma delete_others:
  "foldl (\<lambda>acc cacheName. if cacheName \<noteq> C then cachesDelete acc cacheName else acc) acc ns =
   filter (\<lambda>entry. fst entry = C \<or> fst entry \<notin> set ns) acc"
proof (induction ns arbitrary: acc)
  case Nil
  then show ?case by simp
next
  case (Cons n ns)
  show ?case
    by (auto simp: Cons.IH cachesDelete_def intro: filter_cong)
qed

lemma activate_filter: "activate cs = filter (\<lambda>entry. fst entry = CACHE_NAME) cs"
  unfolding activate_def cachesKeys_def delete_others
  by (rule filter_cong) auto

lemma fetchAll_sound:
  "fetchAll resolve net urls = Some fetched \<Longrightarrow> (k, r) \<in> set fetched \<Longrightarrow> net k = Some r"
  by (induction urls arbitrary: fetched) (auto split: option.splits if_splits)

lemma fetchAll_complete:
  "fetchAll resolve net urls = Some fetched \<Longrightarrow> u \<in> set urls \<Longrightarrow>
   \<exists>r. net (resolve u) = Some r \<and> (resolve u, r) \<in> set fetched"
  by (induction urls arbitrary: fetched) (auto split: option.splits if_splits)

text \<open>
  Putting a list of fetched responses into the cache named \<open>n\<close>: every cache of that
  name then answers the fetched requests as the network did, and the others as before.
\<close>

lemma putAll:
  "(\<And>k r. (k, r) \<in> set fetched \<Longrightarrow> net k = Some r) \<Longrightarrow>
   foldl (\<lambda>acc (url, r). cachePut acc n url r) cs fetched =
   map (\<lambda>entry. if fst entry = n
                  then (fst entry, \<lambda>k. if k \<in> fst ` set fetched then net k else snd entry k)
                  else entry) cs"
proof (induction fetched arbitrary: cs)
  case Nil
  have "map (\<lambda>entry. if fst entry = n
                  then (fst entry, \<lambda>k. if k \<in> fst ` set [] then net k else snd entry k)
                  else entry) cs = cs"
    by (rule map_idI) auto
  from this [symmetric] show ?case unfolding foldl_Nil .
next
  case (Cons p fetched)
  obtain k r where p: "p = (k, r)" by (cases p)
  have nk: "net k = Some r" using Cons.prems p by simp
  have rest: "\<And>k r. (k, r) \<in> set fetched \<Longrightarrow> net k = Some r" using Cons.prems by simp
  have "foldl (\<lambda>acc (url, r). cachePut acc n url r) cs (p # fetched) =
        foldl (\<lambda>acc (url, r). cachePut acc n url r) (cachePut cs n k r) fetched"
    by (simp add: p)
  also have "\<dots> = map (\<lambda>entry. if fst entry = n
                  then (fst entry, \<lambda>k. if k \<in> fst ` set fetched then net k else snd entry k)
                  else entry) (cachePut cs n k r)"
    by (rule Cons.IH [OF rest])
  also have "\<dots> = map (\<lambda>entry. if fst entry = n
                  then (fst entry, \<lambda>k. if k \<in> fst ` set (p # fetched) then net k else snd entry k)
                  else entry) cs"
    unfolding cachePut_def map_map by (rule map_cong) (auto simp: nk p fun_eq_iff)
  finally show ?case .
qed

lemma cachesMatch_all:
  "cs \<noteq> [] \<Longrightarrow> (\<And>entry. entry \<in> set cs \<Longrightarrow> snd entry k = Some r) \<Longrightarrow>
   cachesMatch cs k = Some r"
  by (cases cs) auto

lemma cachesOpen_has: "n \<in> fst ` set (cachesOpen cs n)"
  by (auto simp: cachesOpen_def)

lemma shaped_lookup:
  assumes "k \<in> K"
    and "entry \<in> set (map (\<lambda>e. if fst e = n
                  then (fst e, \<lambda>k. if k \<in> K then net k else snd e k) else e) cs)"
    and "fst entry = n"
  shows "snd entry k = net k"
proof -
  obtain e where e: "e \<in> set cs"
    "entry = (if fst e = n then (fst e, \<lambda>k. if k \<in> K then net k else snd e k) else e)"
    using assms(2) unfolding set_map image_iff by blast
  show ?thesis
  proof (cases "fst e = n")
    case True
    then have "snd entry = (\<lambda>k. if k \<in> K then net k else snd e k)"
      using e(2) by simp
    then show ?thesis using assms(1) by simp
  next
    case False
    then show ?thesis using e(2) assms(3) by simp
  qed
qed

lemma onfetch_hit:
  "cachesMatch cs (req_url req) = Some r \<Longrightarrow> req_method req = ''GET'' \<Longrightarrow>
   startsWith (req_url req) ''http'' \<Longrightarrow> onfetch net cs req = (Responded r, cs)"
  by (simp add: onfetch_def)

text \<open>
  C7. Let the installation succeed on a storage \<open>cs\<close>, whatever caches it holds, and
  let activation follow. Then the caches that remain are exactly those of the current
  name; there is one, and no cache of any other name is left. Every resource of the
  manifest was fetched at installation, \<open>caches.match\<close> finds that response, and the
  \<open>fetch\<close> listener answers a \<open>GET\<close> of the resource with it whatever the network
  would do, leaving the storage as it is.
\<close>

theorem install_activate:
  assumes "install resolve net cs = Inr cs1"
  shows "activate cs1 = filter (\<lambda>entry. fst entry = CACHE_NAME) cs1 \<and>
         set (cachesKeys (activate cs1)) = {CACHE_NAME} \<and>
         (\<forall>u \<in> set urlsToCache. \<exists>r.
            net (resolve u) = Some r \<and>
            cachesMatch (activate cs1) (resolve u) = Some r \<and>
            (\<forall>net' dest. startsWith (resolve u) ''http'' \<longrightarrow>
               onfetch net' (activate cs1)
                 \<lparr>req_method = ''GET'', req_url = resolve u, req_destination = dest\<rparr> =
               (Responded r, activate cs1)))"
proof -
  obtain fetched where f: "fetchAll resolve net urlsToCache = Some fetched"
    and cs1: "cs1 = foldl (\<lambda>acc (url, r). cachePut acc CACHE_NAME url r)
                      (cachesOpen cs CACHE_NAME) fetched"
    using assms by (auto simp: install_def cacheAddAll_def split: option.splits)
  have shape: "cs1 = map (\<lambda>entry. if fst entry = CACHE_NAME
                  then (fst entry, \<lambda>k. if k \<in> fst ` set fetched then net k else snd entry k)
                  else entry) (cachesOpen cs CACHE_NAME)"
    unfolding cs1 by (rule putAll) (rule fetchAll_sound [OF f])
  have "map fst cs1 = map fst (cachesOpen cs CACHE_NAME)"
    unfolding shape map_map by (rule map_cong) auto
  then have names: "fst ` set cs1 = fst ` set (cachesOpen cs CACHE_NAME)"
    by (metis set_map)
  have "CACHE_NAME \<in> fst ` set cs1"
    unfolding names by (rule cachesOpen_has)
  then obtain e where e: "e \<in> set cs1" "fst e = CACHE_NAME"
    by (auto simp: image_iff)
  have nonempty: "activate cs1 \<noteq> []"
    unfolding activate_filter filter_empty_conv using e by blast
  have "set (cachesKeys (activate cs1)) = fst ` {x \<in> set cs1. fst x = CACHE_NAME}"
    by (simp add: cachesKeys_def activate_filter)
  also have "\<dots> = {CACHE_NAME}"
    using e by force
  finally have keys: "set (cachesKeys (activate cs1)) = {CACHE_NAME}" .
  have served: "\<exists>r. net (resolve u) = Some r \<and>
            cachesMatch (activate cs1) (resolve u) = Some r \<and>
            (\<forall>net' dest. startsWith (resolve u) ''http'' \<longrightarrow>
               onfetch net' (activate cs1)
                 \<lparr>req_method = ''GET'', req_url = resolve u, req_destination = dest\<rparr> =
               (Responded r, activate cs1))"
    if u: "u \<in> set urlsToCache" for u
  proof -
    obtain r where r: "net (resolve u) = Some r" "(resolve u, r) \<in> set fetched"
      using fetchAll_complete [OF f u] by blast
    have key: "resolve u \<in> fst ` set fetched"
      using r(2) by force
    have "snd entry (resolve u) = Some r" if "entry \<in> set (activate cs1)" for entry
    proof -
      have "entry \<in> set cs1" "fst entry = CACHE_NAME"
        using that by (simp_all add: activate_filter)
      then show ?thesis
        using shaped_lookup [OF key, of entry CACHE_NAME net "cachesOpen cs CACHE_NAME"] r(1)
        unfolding shape by simp
    qed
    then have hit: "cachesMatch (activate cs1) (resolve u) = Some r"
      by (rule cachesMatch_all [OF nonempty])
    show ?thesis
      using r(1) hit by (intro exI [of _ r]) (simp add: onfetch_hit)
  qed
  show ?thesis
    using activate_filter [of cs1] keys served by blast
qed

lemma example_install_succeeds:
  "\<exists>cs1. install exampleResolve exampleNetwork exampleCaches = Inr cs1"
  by (simp add: install_def cacheAddAll_def urlsToCache_def exampleNetwork_def)

theorem install_activate_witness:
  "\<exists>cs1. install exampleResolve exampleNetwork exampleCaches = Inr cs1 \<and>
     cachesKeys exampleCaches = [''smart-factory-v1.1''] \<and>
     set (cachesKeys (activate cs1)) = {''smart-factory-v1.2''} \<and>
     cachesMatch (activate cs1) ''https://factory.example/index.html'' =
       Some \<lparr>resp_status = 200, resp_type = ''basic'',
             resp_body = ''https://factory.example/index.html''\<rparr> \<and>
     onfetch (\<lambda>u. None) (activate cs1)
       \<lparr>req_method = ''GET'', req_url = ''https://factory.example/index.html'',
        req_destination = ''document''\<rparr> =
       (Responded \<lparr>resp_status = 200, resp_type = ''basic'',
                   resp_body = ''https://factory.example/index.html''\<rparr>, activate cs1)"
proof -
  obtain cs1 where i: "install exampleResolve exampleNetwork exampleCaches = Inr cs1"
    using example_install_succeeds by blast
  have u: "''/index.html'' \<in> set urlsToCache"
    by (simp add: urlsToCache_def)
  have res: "exampleResolve ''/index.html'' = ''https://factory.example/index.html''"
    by (simp add: exampleResolve_def startsWith_def)
  have http: "startsWith (exampleResolve ''/index.html'') ''http''"
    by (simp add: res startsWith_def)
  from install_activate [OF i] have
    keys: "set (cachesKeys (activate cs1)) = {CACHE_NAME}" and
    all: "\<forall>u \<in> set urlsToCache. \<exists>r.
            exampleNetwork (exampleResolve u) = Some r \<and>
            cachesMatch (activate cs1) (exampleResolve u) = Some r \<and>
            (\<forall>net' dest. startsWith (exampleResolve u) ''http'' \<longrightarrow>
               onfetch net' (activate cs1)
                 \<lparr>req_method = ''GET'', req_url = exampleResolve u, req_destination = dest\<rparr> =
               (Responded r, activate cs1))"
    by blast+
  from all u obtain r where r:
    "exampleNetwork (exampleResolve ''/index.html'') = Some r"
    "cachesMatch (activate cs1) (exampleResolve ''/index.html'') = Some r"
    "\<forall>net' dest. startsWith (exampleResolve ''/index.html'') ''http'' \<longrightarrow>
       onfetch net' (activate cs1)
         \<lparr>req_method = ''GET'', req_url = exampleResolve ''/index.html'',
          req_destination = dest\<rparr> = (Responded r, activate cs1)"
    by blast
  have rv: "r = \<lparr>resp_status = 200, resp_type = ''basic'',
                 resp_body = ''https://factory.example/index.html''\<rparr>"
    using r(1) by (simp add: res exampleNetwork_def)
  have served: "onfetch (\<lambda>u. None) (activate cs1)
      \<lparr>req_method = ''GET'', req_url = exampleResolve ''/index.html'',
       req_destination = ''document''\<rparr> = (Responded r, activate cs1)"
    using r(3) http by blast
  have old: "cachesKeys exampleCaches = [''smart-factory-v1.1'']"
    by (simp add: cachesKeys_def exampleCaches_def)
  show ?thesis
    using i keys r(2) served old unfolding rv res CACHE_NAME_def by blast
qed

subsection \<open>C8: teardown of the channel\<close>

lemma demoFactory_channel:
  "connects demoFactory = 0" "reconnectTimers demoFactory = 0" "socket demoFactory = None"
  by (simp_all add: demo_defs)

lemma init_demo:
  "init newFactory (\<lambda>lineId index. midDraws) = animate (setupSocketConnection demoFactory)"
  by (simp add: init_def demoFactory_def)

text \<open>
  C8 on the connected object. \<open>dispose\<close> cancels the animation frame. When
  \<open>dispose\<close> is called and the host then reports the socket closed, the close handler
  sets its timer, and when the timer runs out \<open>setupSocketConnection\<close> is called a
  second time and a new socket is connecting. When the socket is lost first and
  \<open>dispose\<close> is called while the timer is pending, the timer is still pending after
  \<open>dispose\<close>, and it too leads to the second call.
\<close>

theorem reconnect_after_dispose:
  "connects connectedFactory = 1
   \<and> frameRequested connectedFactory
   \<and> \<not> frameRequested (foldl occur connectedFactory [DisposeCalled])
   \<and> connects (foldl occur connectedFactory [DisposeCalled, SocketClosed, TimerFired]) = 2
   \<and> socket (foldl occur connectedFactory [DisposeCalled, SocketClosed, TimerFired]) =
       Some CONNECTING
   \<and> reconnectTimers (foldl occur connectedFactory [SocketClosed]) = 1
   \<and> reconnectTimers (foldl occur connectedFactory [SocketClosed, DisposeCalled]) = 1
   \<and> connects (foldl occur connectedFactory [SocketClosed, DisposeCalled, TimerFired]) = 2"
  by (simp add: connectedFactory_def init_demo animate_def occur_def
      setupSocketConnection_def dispose_def onopen_def onclose_def demoFactory_channel)

subsection \<open>C9: frames the store does not know\<close>

text \<open>
  The part that holds: a frame whose type is neither \<open>machineStatus\<close> nor \<open>alert\<close>,
  and a \<open>machineStatus\<close> frame whose machine id is neither stored nor a member of
  \<open>Object.prototype\<close>, return and leave the object as it was.
\<close>

lemma handleRealtimeData_other_type:
  "d_type d \<noteq> ''machineStatus'' \<Longrightarrow> d_type d \<noteq> ''alert'' \<Longrightarrow>
   handleRealtimeData s d = Normal s"
  by (simp add: handleRealtimeData_def)

lemma handleRealtimeData_unknown_id:
  "d_type d = ''machineStatus'' \<Longrightarrow> machines s (d_machineId d) = None \<Longrightarrow>
   d_machineId d \<notin> set objectPrototypeKeys \<Longrightarrow> handleRealtimeData s d = Normal s"
  by (simp add: handleRealtimeData_def getProperty_def)

lemma handleRealtimeData_inherited_id:
  "d_type d = ''machineStatus'' \<Longrightarrow> machines s (d_machineId d) = None \<Longrightarrow>
   d_machineId d \<in> set objectPrototypeKeys \<Longrightarrow> handleRealtimeData s d = Thrown TypeError s"
  by (simp add: handleRealtimeData_def getProperty_def)

text \<open>
  C9 at a \<open>machineStatus\<close> frame whose machine id is \<open>toString\<close>. The demo layout has
  no machine of that id, but \<open>this.machines['toString']\<close> is the function inherited
  from \<open>Object.prototype\<close>, so the guard passes and the handler throws a \<open>TypeError\<close>.
\<close>

theorem inherited_id_throws:
  "machines demoFactory (d_machineId toStringFrame) = None
   \<and> d_type toStringFrame = ''machineStatus''
   \<and> handleRealtimeData demoFactory toStringFrame = Thrown TypeError demoFactory"
  by (simp add: handleRealtimeData_def getProperty_def toStringFrame_def frame_def
      demoFactory_toString objectPrototypeKeys_def)

subsection \<open>C10: the statuses stored at construction\<close>

lemma forEachConfig_other:
  "k \<notin> set (map cfg_id cs) \<Longrightarrow> machines (forEachConfig ls dr s cs i) k = machines s k"
  by (induction cs arbitrary: s i) (auto simp: createMachine_def Let_def)

lemma forEachConfig_distinct:
  "distinct (map cfg_id cs) \<Longrightarrow> c \<in> set cs \<Longrightarrow>
   map_option m_status (machines (forEachConfig ls dr s cs i) (cfg_id c)) =
     Some (if ls = ''stopped'' then ''stopped'' else cfg_status c)"
proof (induction cs arbitrary: s i)
  case Nil
  then show ?case by simp
next
  case (Cons a cs)
  show ?case
  proof (cases "c = a")
    case True
    with Cons.prems have "cfg_id c \<notin> set (map cfg_id cs)" by auto
    then show ?thesis using True
      by (simp add: forEachConfig_other Let_def createMachine_def)
  next
    case False
    with Cons.prems have "c \<in> set cs" "distinct (map cfg_id cs)" by auto
    then show ?thesis using Cons.IH by (simp add: Let_def)
  qed
qed

text \<open>
  On a stopped line no identifier has to be distinct: whichever entry wrote last, it
  wrote \<open>stopped\<close>.
\<close>

lemma forEachConfig_stopped:
  "c \<in> set cs \<or> map_option m_status (machines s k) = Some ''stopped'' \<Longrightarrow>
   (c \<in> set cs \<longrightarrow> k = cfg_id c) \<Longrightarrow>
   map_option m_status (machines (forEachConfig ''stopped'' dr s cs i) k) = Some ''stopped''"
proof (induction cs arbitrary: s i)
  case Nil
  then show ?case by simp
next
  case (Cons a cs)
  let ?s1 = "createMachine s (cfg_id a) (cfg_name a) ''stopped'' (dr i)"
  have step: "forEachConfig ''stopped'' dr s (a # cs) i =
              forEachConfig ''stopped'' dr ?s1 cs (Suc i)"
    by (simp add: Let_def)
  have "c \<in> set cs \<or> map_option m_status (machines ?s1 k) = Some ''stopped''"
    using Cons.prems by (auto simp: createMachine_def)
  moreover have "c \<in> set cs \<longrightarrow> k = cfg_id c"
    using Cons.prems by auto
  ultimately show ?case
    unfolding step by (rule Cons.IH)
qed

text \<open>
  C10. Let \<open>c\<close> be an entry of the configuration of a line. When the status aggregated
  from the configured statuses is \<open>stopped\<close>, the machine stored under the id of \<open>c\<close> has
  status \<open>stopped\<close>, whatever \<open>c\<close> says. When it is not, and the ids of the configuration
  are distinct (each machine is configured once), the machine stored under the id of
  \<open>c\<close> has exactly the status \<open>c\<close> says.
\<close>

theorem createProductionLine_statuses:
  assumes "c \<in> set machinesConfig"
  shows "(calculateLineStatus machinesConfig = ''stopped'' \<longrightarrow>
          map_option m_status
            (machines (createProductionLine s lineId lineName machinesConfig z col dr)
               (cfg_id c)) = Some ''stopped'') \<and>
         (calculateLineStatus machinesConfig \<noteq> ''stopped'' \<and>
          distinct (map cfg_id machinesConfig) \<longrightarrow>
          map_option m_status
            (machines (createProductionLine s lineId lineName machinesConfig z col dr)
               (cfg_id c)) = Some (cfg_status c))"
proof (intro conjI impI)
  assume "calculateLineStatus machinesConfig = ''stopped''"
  then show "map_option m_status
      (machines (createProductionLine s lineId lineName machinesConfig z col dr) (cfg_id c)) =
      Some ''stopped''"
    using forEachConfig_stopped [of c machinesConfig s "cfg_id c" dr 0] assms
    by (simp add: createProductionLine_def Let_def)
next
  assume "calculateLineStatus machinesConfig \<noteq> ''stopped'' \<and>
          distinct (map cfg_id machinesConfig)"
  then show "map_option m_status
      (machines (createProductionLine s lineId lineName machinesConfig z col dr) (cfg_id c)) =
      Some (cfg_status c)"
    using forEachConfig_distinct [of machinesConfig c "calculateLineStatus machinesConfig" dr s 0]
      assms
    by (simp add: createProductionLine_def Let_def)
qed

theorem createProductionLine_statuses_witness:
  "calculateLineStatus lineA = ''stopped''
   \<and> map_option m_status
       (machines (createProductionLine newFactory ''A'' ''Automotive Parts'' lineA (- 6) ''red''
          (\<lambda>index. midDraws)) ''MACHINE_A1'') = Some ''stopped''
   \<and> calculateLineStatus lineC = ''running''
   \<and> distinct (map cfg_id lineC)
   \<and> map_option m_status
       (machines (createProductionLine newFactory ''C'' ''Consumer Goods'' lineC 6 ''green''
          (\<lambda>index. midDraws)) ''MACHINE_C4'') = Some ''running''"
proof -
  have a: "\<lparr>cfg_id = ''MACHINE_A1'', cfg_name = ''Stamping Press A1'', cfg_type = ''stamping'',
            cfg_status = ''running''\<rparr> \<in> set lineA"
    by (simp add: lineA_def)
  have c: "\<lparr>cfg_id = ''MACHINE_C4'', cfg_name = ''Packaging Line C4'', cfg_type = ''packaging'',
            cfg_status = ''running''\<rparr> \<in> set lineC"
    by (simp add: lineC_def)
  have sa: "calculateLineStatus lineA = ''stopped''"
    by (simp add: calculateLineStatus_def lineA_def)
  have sc: "calculateLineStatus lineC = ''running''" "distinct (map cfg_id lineC)"
    by (simp_all add: calculateLineStatus_def lineC_def)
  show ?thesis
    using createProductionLine_statuses [OF a, of newFactory "''A''" "''Automotive Parts''"
        "- 6" "''red''" "\<lambda>index. midDraws"]
      createProductionLine_statuses [OF c, of newFactory "''C''" "''Consumer Goods''"
        6 "''green''" "\<lambda>index. midDraws"]
      sa sc
    by simp
qed

end
